theory Spec2Isabelle
  imports Complex_Main "HOL-Library.Sublist" "HOL-Library.Log_Nat"
begin

section \<open>Dashboard state and the AEP request (App.tsx, AnalysisForm.tsx, services/api.ts)\<close>

text \<open>
  The dashboard keeps the active dataset in React state. Its type is
  \<^verbatim>\<open>{ id: string; name: string; isDefault: boolean } | null\<close>; the
  value \<^verbatim>\<open>null\<close> is \<open>None\<close>.
\<close>

record active_dataset =
  ds_id :: string
  ds_name :: string
  isDefault :: bool

text \<open>The object that \<^verbatim>\<open>uploadPlantData\<close> resolves to.\<close>

record upload_response =
  up_status :: string
  up_message :: string
  file_id :: string
  filename :: string
  file_type :: string
  row_count :: nat
  columns :: "string list"
  file_size_bytes :: nat

text \<open>
  The body of \<^verbatim>\<open>POST /api/v1/analysis/aep\<close> is
  \<^verbatim>\<open>JSON.stringify({ iterations, file_id })\<close>: a key whose value is
  \<^verbatim>\<open>undefined\<close> is left out of the JSON text, which is \<open>None\<close> here.
\<close>

record aep_request_body =
  body_iterations :: int
  body_file_id :: "string option"

definition default_dataset :: active_dataset where
  "default_dataset =
     \<lparr>ds_id = ''default'', ds_name = ''la-haute-borne-data-2014-2015.csv'', isDefault = True\<rparr>"

definition initial_activeDataset :: "active_dataset option" where
  "initial_activeDataset = Some default_dataset"

text \<open>
  \<^verbatim>\<open>const file_id = activeDataset?.isDefault ? undefined : activeDataset?.id\<close>.
  On \<^verbatim>\<open>null\<close> the optional chain yields \<^verbatim>\<open>undefined\<close>, which is
  falsy, and the second optional chain yields \<^verbatim>\<open>undefined\<close> again.
\<close>

definition runAnalysis_file_id :: "active_dataset option \<Rightarrow> string option" where
  "runAnalysis_file_id activeDataset =
     (case activeDataset of
        None \<Rightarrow> None
      | Some d \<Rightarrow> (if isDefault d then None else Some (ds_id d)))"

definition runAepAnalysis_body :: "int \<Rightarrow> string option \<Rightarrow> aep_request_body" where
  "runAepAnalysis_body iterations fid = \<lparr>body_iterations = iterations, body_file_id = fid\<rparr>"

text \<open>The request that \<^verbatim>\<open>runAnalysis(iterations)\<close> sends in a given state.\<close>

definition runAnalysis :: "active_dataset option \<Rightarrow> int \<Rightarrow> aep_request_body" where
  "runAnalysis activeDataset iterations =
     runAepAnalysis_body iterations (runAnalysis_file_id activeDataset)"

text \<open>
  The only two places that write the state: a successful upload
  (\<^verbatim>\<open>handleFileUpload\<close>) and the selector's clear button
  (\<^verbatim>\<open>onClearDataset\<close>). A failed upload leaves the state as it is.
\<close>

datatype app_event = UploadSucceeded upload_response | UploadFailed | ClearDataset

fun app_step :: "active_dataset option \<Rightarrow> app_event \<Rightarrow> active_dataset option" where
  "app_step s (UploadSucceeded response) =
     Some \<lparr>ds_id = file_id response, ds_name = filename response, isDefault = False\<rparr>"
| "app_step s UploadFailed = s"
| "app_step s ClearDataset = Some default_dataset"

definition app_run :: "app_event list \<Rightarrow> active_dataset option" where
  "app_run es = foldl app_step initial_activeDataset es"

text \<open>
  \<^verbatim>\<open>AnalysisForm.handleSubmit\<close>:
  \<^verbatim>\<open>const safeIterations = Math.min(Math.max(iterations, 50), 5000)\<close>, then
  \<^verbatim>\<open>await onSubmit(safeIterations)\<close>. The function returns the argument
  that \<^verbatim>\<open>onSubmit\<close> receives; the form state holds an integer.
\<close>

definition handleSubmit :: "int \<Rightarrow> int" where
  "handleSubmit iterations = min (max iterations 50) 5000"

text \<open>Submitting the form with \<open>n\<close> in the field, with \<^verbatim>\<open>onSubmit={runAnalysis}\<close>.\<close>

definition submit_form :: "active_dataset option \<Rightarrow> int \<Rightarrow> aep_request_body" where
  "submit_form activeDataset n = runAnalysis activeDataset (handleSubmit n)"

section \<open>Multi-analysis selector (MultiAnalysisSelector.tsx) and single runs\<close>

datatype AnalysisType =
  aep_monte_carlo | electrical_losses | wake_losses | turbine_ideal_energy | eya_gap_analysis

text \<open>
  An entry of \<^verbatim>\<open>ANALYSIS_OPTIONS\<close>. The fields \<^verbatim>\<open>disabled?\<close> and
  \<^verbatim>\<open>disabledReason?\<close> are optional: an entry that does not write them has
  \<open>None\<close>.
\<close>

record analysis_option =
  opt_value :: AnalysisType
  opt_label :: string
  opt_description :: string
  opt_disabled :: "bool option"
  opt_disabledReason :: "string option"

definition ANALYSIS_OPTIONS :: "analysis_option list" where
  "ANALYSIS_OPTIONS =
    [\<lparr>opt_value = aep_monte_carlo, opt_label = ''AEP (Monte Carlo)'',
       opt_description = ''Annual Energy Production with uncertainty analysis'',
       opt_disabled = None, opt_disabledReason = None\<rparr>,
     \<lparr>opt_value = electrical_losses, opt_label = ''Electrical Losses'',
       opt_description = ''Transmission and electrical system losses'',
       opt_disabled = None, opt_disabledReason = None\<rparr>,
     \<lparr>opt_value = wake_losses, opt_label = ''Wake Losses'',
       opt_description = ''Turbine wake interaction effects'',
       opt_disabled = Some True,
       opt_disabledReason = Some ''Long-running analysis - use single analysis mode''\<rparr>,
     \<lparr>opt_value = turbine_ideal_energy, opt_label = ''Turbine Ideal Energy'',
       opt_description = ''Theoretical maximum energy production'',
       opt_disabled = Some True,
       opt_disabledReason = Some ''Long-running analysis - use single analysis mode''\<rparr>,
     \<lparr>opt_value = eya_gap_analysis, opt_label = ''EYA Gap Analysis'',
       opt_description = ''Compare actual vs expected yield assessment'',
       opt_disabled = None, opt_disabledReason = None\<rparr>]"

text \<open>
  A JavaScript \<^verbatim>\<open>Set\<close> iterates in insertion order, and
  \<^verbatim>\<open>Array.from\<close> reads it in that order: the set is a list without
  repetition, \<^verbatim>\<open>add\<close> appends an absent element and
  \<^verbatim>\<open>delete\<close> removes it.
\<close>

definition set_has :: "'a list \<Rightarrow> 'a \<Rightarrow> bool" where
  "set_has s x = (x \<in> set s)"

definition set_add :: "'a list \<Rightarrow> 'a \<Rightarrow> 'a list" where
  "set_add s x = (if x \<in> set s then s else s @ [x])"

definition set_delete :: "'a list \<Rightarrow> 'a \<Rightarrow> 'a list" where
  "set_delete s x = filter (\<lambda>y. y \<noteq> x) s"

definition new_Set :: "'a list \<Rightarrow> 'a list" where
  "new_Set xs = foldl set_add [] xs"

text \<open>\<^verbatim>\<open>option?.disabled\<close> as a condition: truthy only for a found entry whose flag is true.\<close>

definition is_disabled :: "analysis_option option \<Rightarrow> bool" where
  "is_disabled option = (case option of None \<Rightarrow> False | Some opt \<Rightarrow> opt_disabled opt = Some True)"

definition toggleSelection :: "AnalysisType list \<Rightarrow> AnalysisType \<Rightarrow> AnalysisType list" where
  "toggleSelection selectedTypes type =
     (let option = find (\<lambda>opt. opt_value opt = type) ANALYSIS_OPTIONS in
      if is_disabled option then selectedTypes
      else if set_has selectedTypes type then set_delete selectedTypes type
      else set_add selectedTypes type)"

definition selectAll :: "AnalysisType list" where
  "selectAll =
     new_Set (map opt_value (filter (\<lambda>opt. \<not> is_disabled (Some opt)) ANALYSIS_OPTIONS))"

definition clearAll :: "AnalysisType list" where
  "clearAll = new_Set []"

text \<open>
  \<^verbatim>\<open>handleRunMultiple\<close> calls \<^verbatim>\<open>onRunMultiple(Array.from(selectedTypes))\<close>
  when the set is not empty; \<open>None\<close> is no call.
\<close>

definition handleRunMultiple :: "AnalysisType list \<Rightarrow> AnalysisType list option" where
  "handleRunMultiple selectedTypes =
     (if length selectedTypes > 0 then Some selectedTypes else None)"

text \<open>
  The component as a state machine: the selection, and the arguments of every call of
  \<^verbatim>\<open>onRunMultiple\<close> so far. The handlers are taken as they are written, without
  the \<^verbatim>\<open>isLoading\<close> flag that only greys the buttons out.
\<close>

record selector_state =
  selectedTypes :: "AnalysisType list"
  onRunMultiple_calls :: "AnalysisType list list"

datatype selector_event = Toggle AnalysisType | SelectAll | ClearAll | RunSelected

fun selector_step :: "selector_state \<Rightarrow> selector_event \<Rightarrow> selector_state" where
  "selector_step s (Toggle t) = s\<lparr>selectedTypes := toggleSelection (selectedTypes s) t\<rparr>"
| "selector_step s SelectAll = s\<lparr>selectedTypes := selectAll\<rparr>"
| "selector_step s ClearAll = s\<lparr>selectedTypes := clearAll\<rparr>"
| "selector_step s RunSelected =
     (case handleRunMultiple (selectedTypes s) of
        None \<Rightarrow> s
      | Some ts \<Rightarrow> s\<lparr>onRunMultiple_calls := onRunMultiple_calls s @ [ts]\<rparr>)"

definition selector_init :: selector_state where
  "selector_init = \<lparr>selectedTypes = new_Set [], onRunMultiple_calls = []\<rparr>"

definition selector_run :: "selector_event list \<Rightarrow> selector_state" where
  "selector_run es = foldl selector_step selector_init es"

definition long_running :: "AnalysisType \<Rightarrow> bool" where
  "long_running t = (t = wake_losses \<or> t = turbine_ideal_energy)"

text \<open>The invariant of the selector: no long-running type selected or submitted.\<close>

definition selector_ok :: "selector_state \<Rightarrow> bool" where
  "selector_ok s =
     ((\<forall>t \<in> set (selectedTypes s). \<not> long_running t)
      \<and> (\<forall>ts \<in> set (onRunMultiple_calls s). ts \<noteq> [] \<and> (\<forall>t \<in> set ts. \<not> long_running t)))"

text \<open>
  \<^verbatim>\<open>runAnalysisByType\<close>: the endpoint table, and the guard
  \<^verbatim>\<open>if (!endpoint) throw new Error(`Unknown analysis type: ${type}`)\<close>; an empty
  string is the only falsy string. The result is the path the request is posted to.
\<close>

datatype client_error = Error string | SyntaxError | TypeError | RangeError

definition endpoints :: "AnalysisType \<Rightarrow> string" where
  "endpoints t =
     (case t of
        aep_monte_carlo \<Rightarrow> ''/api/v1/analysis/aep''
      | electrical_losses \<Rightarrow> ''/api/v1/analysis/electrical-losses''
      | wake_losses \<Rightarrow> ''/api/v1/analysis/wake-losses''
      | turbine_ideal_energy \<Rightarrow> ''/api/v1/analysis/turbine-ideal-energy''
      | eya_gap_analysis \<Rightarrow> ''/api/v1/analysis/eya-gap'')"

definition type_name :: "AnalysisType \<Rightarrow> string" where
  "type_name t =
     (case t of
        aep_monte_carlo \<Rightarrow> ''aep_monte_carlo''
      | electrical_losses \<Rightarrow> ''electrical_losses''
      | wake_losses \<Rightarrow> ''wake_losses''
      | turbine_ideal_energy \<Rightarrow> ''turbine_ideal_energy''
      | eya_gap_analysis \<Rightarrow> ''eya_gap_analysis'')"

definition runAnalysisByType_endpoint :: "AnalysisType \<Rightarrow> client_error + string" where
  "runAnalysisByType_endpoint t =
     (let endpoint = endpoints t in
      if endpoint = [] then Inl (Error (''Unknown analysis type: '' @ type_name t))
      else Inr endpoint)"

section \<open>The request helper of the API client (services/api.ts)\<close>

text \<open>
  What \<^verbatim>\<open>request\<close> reads of the \<^verbatim>\<open>Response\<close> object:
  \<^verbatim>\<open>response.ok\<close>, \<^verbatim>\<open>response.status\<close>, the outcome of
  \<^verbatim>\<open>await response.text()\<close> and the outcome of
  \<^verbatim>\<open>response.json()\<close>, which rejects with a SyntaxError when the body is not
  JSON text (\<open>None\<close>).
\<close>

record 'j http_response =
  ok :: bool
  status :: nat
  text_body :: string
  json_body :: "'j option"

definition digit_char :: "nat \<Rightarrow> char" where
  "digit_char d = ''0123456789'' ! d"

fun show_nat :: "nat \<Rightarrow> string" where
  "show_nat n = (if n < 10 then [digit_char n] else show_nat (n div 10) @ [digit_char (n mod 10)])"

declare show_nat.simps [simp del]

text \<open>
  \<^verbatim>\<open>request\<close>, from the outcome of \<^verbatim>\<open>await fetch(...)\<close> on: a rejected
  fetch (\<open>Inl\<close>) is passed on; a response that is not ok throws
  \<^verbatim>\<open>new Error(message || `Request failed with ${response.status}`)\<close>; otherwise
  the promise of \<^verbatim>\<open>response.json()\<close> is returned.
\<close>

definition request :: "client_error + 'j http_response \<Rightarrow> client_error + 'j" where
  "request fetched =
     (case fetched of
        Inl e \<Rightarrow> Inl e
      | Inr response \<Rightarrow>
          if \<not> ok response then
            (let message = text_body response in
             Inl (Error (if message \<noteq> [] then message
                         else ''Request failed with '' @ show_nat (status response))))
          else (case json_body response of
                  None \<Rightarrow> Inl SyntaxError
                | Some v \<Rightarrow> Inr v))"

text \<open>A 200 response whose body is an HTML page, as a proxy in front of the API may send.\<close>

definition html_200 :: "string http_response" where
  "html_200 = \<lparr>ok = True, status = 200, text_body = ''<html></html>'', json_body = None\<rparr>"

section \<open>Analysis results (types/api.ts)\<close>

text \<open>
  A JavaScript number that came out of JSON text is a finite double, which is a
  rational number. Strings are byte strings; case folding acts on the ASCII letters.
\<close>

type_synonym number = rat

datatype AnalysisStatus = pending | running | completed | failed

definition status_name :: "AnalysisStatus \<Rightarrow> string" where
  "status_name s =
     (case s of pending \<Rightarrow> ''pending'' | running \<Rightarrow> ''running''
      | completed \<Rightarrow> ''completed'' | failed \<Rightarrow> ''failed'')"

text \<open>
  \<^verbatim>\<open>AnalysisResult\<close>: every field but \<^verbatim>\<open>analysis_type\<close> is declared
  with \<^verbatim>\<open>?\<close>. An absent key and a JSON \<^verbatim>\<open>null\<close> are both \<open>None\<close>:
  the readers below test with \<^verbatim>\<open>!= null\<close>, \<^verbatim>\<open>??\<close> and
  \<^verbatim>\<open>typeof v === 'number'\<close>, which do not tell them apart.
\<close>

record AnalysisResult =
  analysis_type :: string
  result_notes :: "string option"
  raw_columns :: "string list option"
  aep_gwh :: "number option"
  uncertainty_pct :: "number option"
  capacity_factor :: "number option"
  plant_capacity_mw :: "number option"
  iterations :: "number option"
  total_loss_pct :: "number option"
  wake_loss_pct :: "number option"
  ideal_energy_gwh :: "number option"
  gap_pct :: "number option"

record AnalysisResponse =
  resp_id :: string
  resp_status :: AnalysisStatus
  result :: AnalysisResult
  created_at :: "string option"
  completed_at :: "string option"
  resp_error :: "string option"

definition upper_letters :: string where
  "upper_letters = ''ABCDEFGHIJKLMNOPQRSTUVWXYZ''"

definition lower_letters :: string where
  "lower_letters = ''abcdefghijklmnopqrstuvwxyz''"

definition lower_char :: "char \<Rightarrow> char" where
  "lower_char c = (case map_of (zip upper_letters lower_letters) c of None \<Rightarrow> c | Some l \<Rightarrow> l)"

definition toLowerCase :: "string \<Rightarrow> string" where
  "toLowerCase s = map lower_char s"

text \<open>\<^verbatim>\<open>s.includes(sub)\<close>: \<open>sub\<close> occurs in \<open>s\<close> as a contiguous piece.\<close>

fun str_includes :: "string \<Rightarrow> string \<Rightarrow> bool" where
  "str_includes [] sub = (sub = [])"
| "str_includes (c # cs) sub = (prefix sub (c # cs) \<or> str_includes cs sub)"

text \<open>\<^verbatim>\<open>parts.join(sep)\<close>.\<close>

fun join :: "string \<Rightarrow> string list \<Rightarrow> string" where
  "join sep [] = []"
| "join sep [x] = x"
| "join sep (x # y # ys) = x @ sep @ join sep (y # ys)"

fun show_int :: "int \<Rightarrow> string" where
  "show_int i = (if i < 0 then CHR ''-'' # show_nat (nat (- i)) else show_nat (nat i))"

text \<open>
  \<^verbatim>\<open>Number.prototype.toString\<close>. A whole number of magnitude at most
  \<open>2\<^sup>5\<^sup>3\<close> is written with its decimal digits, with a minus sign when negative.
  The text of any other number (the shortest decimal that reads back as the same double,
  padded with zeros or in exponent form where it is large) is left to the parameter
  \<open>frac_str\<close>.
\<close>

definition Number_toString :: "(number \<Rightarrow> string) \<Rightarrow> number \<Rightarrow> string" where
  "Number_toString frac_str x =
     (if of_int \<lfloor>x\<rfloor> = x \<and> \<bar>x\<bar> \<le> 2 ^ 53 then show_int \<lfloor>x\<rfloor> else frac_str x)"

section \<open>Comparison export (utils/export.ts)\<close>

record download =
  content :: string
  dl_filename :: string
  mimeType :: string

definition comparison_headers :: "string list" where
  "comparison_headers =
     [''Analysis ID'', ''Type'', ''AEP (GWh)'', ''Uncertainty (%)'', ''Capacity Factor (%)'',
      ''Iterations'', ''Status'', ''Created At'']"

text \<open>\<^verbatim>\<open>v ?? 0\<close>.\<close>

definition or_zero :: "number option \<Rightarrow> number" where
  "or_zero v = (case v of None \<Rightarrow> 0 | Some x \<Rightarrow> x)"

text \<open>
  \<^verbatim>\<open>analysis.created_at ? new Date(analysis.created_at).toISOString() : ''\<close>.
  An absent or empty string is falsy. The parameter \<open>toISOString\<close> is the platform's
  \<^verbatim>\<open>new Date(s).toISOString()\<close>, which throws a RangeError on a string that is
  not a date (\<open>None\<close>).
\<close>

definition created_cell :: "(string \<Rightarrow> string option) \<Rightarrow> AnalysisResponse \<Rightarrow> client_error + string" where
  "created_cell toISOString analysis =
     (case created_at analysis of
        None \<Rightarrow> Inr []
      | Some s \<Rightarrow>
          if s = [] then Inr []
          else (case toISOString s of None \<Rightarrow> Inl RangeError | Some t \<Rightarrow> Inr t))"

definition comparison_row ::
  "(number \<Rightarrow> string) \<Rightarrow> (string \<Rightarrow> string option) \<Rightarrow> AnalysisResponse \<Rightarrow> client_error + string list" where
  "comparison_row frac_str toISOString analysis =
     (case created_cell toISOString analysis of
        Inl e \<Rightarrow> Inl e
      | Inr created \<Rightarrow>
          Inr [resp_id analysis,
               analysis_type (result analysis),
               Number_toString frac_str (or_zero (aep_gwh (result analysis))),
               Number_toString frac_str (or_zero (uncertainty_pct (result analysis))),
               Number_toString frac_str (or_zero (capacity_factor (result analysis))),
               Number_toString frac_str (or_zero (iterations (result analysis))),
               status_name (resp_status analysis),
               created])"

text \<open>\<^verbatim>\<open>analyses.map(...)\<close> with a callback that may throw: the first throw ends the map.\<close>

fun map_rows :: "('a \<Rightarrow> client_error + 'b) \<Rightarrow> 'a list \<Rightarrow> client_error + 'b list" where
  "map_rows f [] = Inr []"
| "map_rows f (x # xs) =
     (case f x of
        Inl e \<Rightarrow> Inl e
      | Inr y \<Rightarrow> (case map_rows f xs of Inl e \<Rightarrow> Inl e | Inr ys \<Rightarrow> Inr (y # ys)))"

definition quote_cell :: "string \<Rightarrow> string" where
  "quote_cell cell = [CHR 0x22] @ cell @ [CHR 0x22]"

definition csv_line :: "string list \<Rightarrow> string" where
  "csv_line row = join '','' (map quote_cell row)"

definition csv_content :: "string list \<Rightarrow> string list list \<Rightarrow> string" where
  "csv_content headers rows = join [CHR 0x0A] (join '','' headers # map csv_line rows)"

text \<open>
  \<^verbatim>\<open>exportComparisonToCSV\<close>. The result is the file handed to
  \<^verbatim>\<open>downloadFile\<close>, or \<open>None\<close> when the function returns before reaching it.
  The parameter \<open>now_iso\<close> is \<^verbatim>\<open>new Date().toISOString()\<close> at the time of
  the call; \<^verbatim>\<open>.split('T')[0]\<close> keeps what precedes the first \<open>T\<close>.
\<close>

definition exportComparisonToCSV ::
  "(number \<Rightarrow> string) \<Rightarrow> (string \<Rightarrow> string option) \<Rightarrow> string \<Rightarrow> AnalysisResponse list
     \<Rightarrow> client_error + download option" where
  "exportComparisonToCSV frac_str toISOString now_iso analyses =
     (if length analyses = 0 then Inr None
      else (case map_rows (comparison_row frac_str toISOString) analyses of
              Inl e \<Rightarrow> Inl e
            | Inr rows \<Rightarrow>
                (let timestamp = takeWhile (\<lambda>c. c \<noteq> CHR ''T'') now_iso in
                 Inr (Some \<lparr>content = csv_content comparison_headers rows,
                            dl_filename = ''analysis_comparison_'' @ timestamp @ ''.csv'',
                            mimeType = ''text/csv''\<rparr>))))"

text \<open>The same analysis with each absent exported number replaced by a true zero.\<close>

definition zero_fill :: "AnalysisResponse \<Rightarrow> AnalysisResponse" where
  "zero_fill analysis =
     analysis\<lparr>result := (result analysis)
       \<lparr>aep_gwh := Some (or_zero (aep_gwh (result analysis))),
        uncertainty_pct := Some (or_zero (uncertainty_pct (result analysis))),
        capacity_factor := Some (or_zero (capacity_factor (result analysis))),
        iterations := Some (or_zero (iterations (result analysis)))\<rparr>\<rparr>"

text \<open>What the row of an analysis is when its date, if any, converts to \<open>created\<close>.\<close>

definition expected_row :: "(number \<Rightarrow> string) \<Rightarrow> AnalysisResponse \<Rightarrow> string \<Rightarrow> string list" where
  "expected_row frac_str analysis created =
     [resp_id analysis, analysis_type (result analysis),
      (case aep_gwh (result analysis) of None \<Rightarrow> ''0'' | Some v \<Rightarrow> Number_toString frac_str v),
      (case uncertainty_pct (result analysis) of None \<Rightarrow> ''0'' | Some v \<Rightarrow> Number_toString frac_str v),
      (case capacity_factor (result analysis) of None \<Rightarrow> ''0'' | Some v \<Rightarrow> Number_toString frac_str v),
      (case iterations (result analysis) of None \<Rightarrow> ''0'' | Some v \<Rightarrow> Number_toString frac_str v),
      status_name (resp_status analysis), created]"

text \<open>
  Sample inputs for the export. \<open>example_frac_str\<close> and \<open>example_toISOString\<close>
  stand for the two platform conversions on the values used below:
  \<^verbatim>\<open>(2.5).toString()\<close> is \<^verbatim>\<open>2.5\<close>,
  \<^verbatim>\<open>new Date('2026-02-03T12:34:56Z').toISOString()\<close> is
  \<^verbatim>\<open>2026-02-03T12:34:56.000Z\<close>, and \<^verbatim>\<open>new Date('not a date')\<close>
  is an invalid date, on which \<^verbatim>\<open>toISOString\<close> throws. The analyses are the
  result of an AEP run, the result of an electrical-losses run with no creation date, the
  first with a creation date that is not a date, and the second with a line feed in its id.
\<close>

definition example_frac_str :: "number \<Rightarrow> string" where
  "example_frac_str x = (if x = 5 / 2 then ''2.5'' else ''NaN'')"

definition example_toISOString :: "string \<Rightarrow> string option" where
  "example_toISOString s =
     (if s = ''2026-02-03T12:34:56Z'' then Some ''2026-02-03T12:34:56.000Z'' else None)"

definition empty_result :: AnalysisResult where
  "empty_result =
     \<lparr>analysis_type = [], result_notes = None, raw_columns = None, aep_gwh = None,
      uncertainty_pct = None, capacity_factor = None, plant_capacity_mw = None,
      iterations = None, total_loss_pct = None, wake_loss_pct = None,
      ideal_energy_gwh = None, gap_pct = None\<rparr>"

definition aep_example :: AnalysisResponse where
  "aep_example =
     \<lparr>resp_id = ''aep_1'', resp_status = completed,
      result = empty_result\<lparr>analysis_type := ''aep_monte_carlo'', aep_gwh := Some 32,
                 uncertainty_pct := Some 5, capacity_factor := Some 35,
                 plant_capacity_mw := Some 10, iterations := Some 1000\<rparr>,
      created_at = Some ''2026-02-03T12:34:56Z'', completed_at = None, resp_error = None\<rparr>"

definition losses_example :: AnalysisResponse where
  "losses_example =
     \<lparr>resp_id = ''el_2'', resp_status = completed,
      result = empty_result\<lparr>analysis_type := ''electrical_losses'', total_loss_pct := Some 2\<rparr>,
      created_at = None, completed_at = None, resp_error = None\<rparr>"

definition bad_date_example :: AnalysisResponse where
  "bad_date_example = aep_example\<lparr>created_at := Some ''not a date''\<rparr>"

definition two_line_id_example :: AnalysisResponse where
  "two_line_id_example = losses_example\<lparr>resp_id := ''el'' @ [CHR 0x0A] @ ''2''\<rparr>"

section \<open>Result panels (ResultPanel.tsx)\<close>

text \<open>
  What a result panel shows. \<open>Loading\<close> is the skeleton, \<open>Empty\<close> the
  ``No analysis has been run yet'' box.
\<close>

record result_view =
  view_title :: string
  view_type :: string
  view_status :: string
  view_metrics :: "(string \<times> string) list"
  view_notes :: string
  view_iterations :: "string option"
  view_completed :: string
  view_raw_columns :: "string list"

datatype panel = Loading | Empty | Results result_view

text \<open>
  \<^verbatim>\<open>const completedAt = analysis.completed_at ?? analysis.created_at\<close> and
  \<^verbatim>\<open>completedAt ? new Date(completedAt).toLocaleString() : 'Not available'\<close>.
  The parameter \<open>toLocaleString\<close> is the platform's rendering of a date string; it
  does not throw.
\<close>

definition completedLabel :: "(string \<Rightarrow> string) \<Rightarrow> AnalysisResponse \<Rightarrow> string" where
  "completedLabel toLocaleString analysis =
     (let completedAt = (case completed_at analysis of Some t \<Rightarrow> Some t | None \<Rightarrow> created_at analysis)
      in case completedAt of
           None \<Rightarrow> ''Not available''
         | Some t \<Rightarrow> if t = [] then ''Not available'' else toLocaleString t)"

text \<open>\<^verbatim>\<open>result.raw_columns?.length ? ... : null\<close>: the chips are drawn for a non-empty list.\<close>

definition shown_raw_columns :: "AnalysisResult \<Rightarrow> string list" where
  "shown_raw_columns r = (case raw_columns r of None \<Rightarrow> [] | Some cs \<Rightarrow> cs)"

text \<open>
  \<^verbatim>\<open>v.toFixed(d)\<close> on a field that may be absent: a method call on
  \<^verbatim>\<open>undefined\<close> or \<^verbatim>\<open>null\<close> throws a TypeError. The parameter
  \<open>toFixed\<close> is the platform's fixed-point rendering.
\<close>

definition call_toFixed :: "(nat \<Rightarrow> number \<Rightarrow> string) \<Rightarrow> number option \<Rightarrow> nat \<Rightarrow> client_error + string" where
  "call_toFixed toFixed v d = (case v of None \<Rightarrow> Inl TypeError | Some x \<Rightarrow> Inr (toFixed d x))"

text \<open>
  The panel in \<^verbatim>\<open>webapp/frontend/src/components/features/analysis/ResultPanel.tsx\<close>.
  It reads the four AEP fields without a test:
  \<^verbatim>\<open><Metric label="Net AEP" value={`${result.aep_gwh.toFixed(2)} GWh`} />\<close> and so on.
\<close>

definition ResultPanel_webapp ::
  "(nat \<Rightarrow> number \<Rightarrow> string) \<Rightarrow> (string \<Rightarrow> string) \<Rightarrow> (number \<Rightarrow> string)
     \<Rightarrow> AnalysisResponse option \<Rightarrow> bool \<Rightarrow> client_error + panel" where
  "ResultPanel_webapp toFixed toLocaleString frac_str analysis isLoading =
     (if isLoading then Inr Loading
      else case analysis of
        None \<Rightarrow> Inr Empty
      | Some a \<Rightarrow>
         (let r = result a in
          case call_toFixed toFixed (aep_gwh r) 2 of Inl e \<Rightarrow> Inl e | Inr aep \<Rightarrow>
          case call_toFixed toFixed (uncertainty_pct r) 2 of Inl e \<Rightarrow> Inl e | Inr unc \<Rightarrow>
          case call_toFixed toFixed (capacity_factor r) 1 of Inl e \<Rightarrow> Inl e | Inr cf \<Rightarrow>
          case call_toFixed toFixed (plant_capacity_mw r) 1 of Inl e \<Rightarrow> Inl e | Inr cap \<Rightarrow>
            Inr (Results
              \<lparr>view_title = ''AEP Results'',
               view_type = analysis_type r,
               view_status = status_name (resp_status a),
               view_metrics =
                 [(''Net AEP'', aep @ '' GWh''), (''Uncertainty'', unc @ '' %''),
                  (''Capacity Factor'', cf @ '' %''), (''Plant Capacity'', cap @ '' MW'')],
               view_notes = (case result_notes r of None \<Rightarrow> ''Run completed successfully.'' | Some n \<Rightarrow> n),
               view_iterations =
                 Some (''Iterations: '' @ (case iterations r of None \<Rightarrow> []
                                           | Some n \<Rightarrow> Number_toString frac_str n)),
               view_completed = ''Completed: '' @ completedLabel toLocaleString a,
               view_raw_columns = shown_raw_columns r\<rparr>)))"

text \<open>
  The panel with the export menu (the second \<^verbatim>\<open>ResultPanel\<close> of the sources). It
  pushes a metric only after \<^verbatim>\<open>if (result.f != null)\<close>, in this order.
\<close>

definition push_metric ::
  "(nat \<Rightarrow> number \<Rightarrow> string) \<Rightarrow> string \<Rightarrow> number option \<Rightarrow> nat \<Rightarrow> string
     \<Rightarrow> (string \<times> string) list \<Rightarrow> (string \<times> string) list" where
  "push_metric toFixed label v d unit ms =
     (case v of None \<Rightarrow> ms | Some x \<Rightarrow> ms @ [(label, toFixed d x @ unit)])"

definition getTitle :: "AnalysisResult \<Rightarrow> string" where
  "getTitle r =
     (let type = toLowerCase (analysis_type r) in
      if str_includes type ''aep'' then ''AEP Results''
      else if str_includes type ''electrical'' then ''Electrical Losses Results''
      else if str_includes type ''wake'' then ''Wake Losses Results''
      else if str_includes type ''turbine'' then ''Turbine Ideal Energy Results''
      else if str_includes type ''eya'' \<or> str_includes type ''gap'' then ''EYA Gap Analysis Results''
      else ''Analysis Results'')"

definition dynamic_metrics :: "(nat \<Rightarrow> number \<Rightarrow> string) \<Rightarrow> AnalysisResult \<Rightarrow> (string \<times> string) list" where
  "dynamic_metrics toFixed r =
     (push_metric toFixed ''Plant Capacity'' (plant_capacity_mw r) 1 '' MW''
     (push_metric toFixed ''Capacity Factor'' (capacity_factor r) 1 '' %''
     (push_metric toFixed ''Uncertainty'' (uncertainty_pct r) 2 '' %''
     (push_metric toFixed ''Gap'' (gap_pct r) 2 '' %''
     (push_metric toFixed ''Wake Losses'' (wake_loss_pct r) 2 '' %''
     (push_metric toFixed ''Electrical Losses'' (total_loss_pct r) 2 '' %''
     (push_metric toFixed ''Ideal Energy'' (ideal_energy_gwh r) 2 '' GWh''
     (push_metric toFixed ''Net AEP'' (aep_gwh r) 2 '' GWh'' []))))))))"

definition ResultPanel_dynamic ::
  "(nat \<Rightarrow> number \<Rightarrow> string) \<Rightarrow> (string \<Rightarrow> string) \<Rightarrow> (number \<Rightarrow> string)
     \<Rightarrow> AnalysisResponse option \<Rightarrow> bool \<Rightarrow> client_error + panel" where
  "ResultPanel_dynamic toFixed toLocaleString frac_str analysis isLoading =
     (if isLoading then Inr Loading
      else case analysis of
        None \<Rightarrow> Inr Empty
      | Some a \<Rightarrow>
         (let r = result a in
          Inr (Results
            \<lparr>view_title = getTitle r,
             view_type = analysis_type r,
             view_status = status_name (resp_status a),
             view_metrics = dynamic_metrics toFixed r,
             view_notes = (case result_notes r of None \<Rightarrow> ''Run completed successfully.'' | Some n \<Rightarrow> n),
             view_iterations =
               (case iterations r of None \<Rightarrow> None
                | Some n \<Rightarrow> Some (''Iterations: '' @ Number_toString frac_str n)),
             view_completed = ''Completed: '' @ completedLabel toLocaleString a,
             view_raw_columns = shown_raw_columns r\<rparr>)))"

text \<open>The labels of the metrics whose field is present, in the order of the panel.\<close>

definition present_labels :: "AnalysisResult \<Rightarrow> string list" where
  "present_labels r =
     map fst (filter (\<lambda>(l, v). v \<noteq> None)
       [(''Net AEP'', aep_gwh r), (''Ideal Energy'', ideal_energy_gwh r),
        (''Electrical Losses'', total_loss_pct r), (''Wake Losses'', wake_loss_pct r),
        (''Gap'', gap_pct r), (''Uncertainty'', uncertainty_pct r),
        (''Capacity Factor'', capacity_factor r), (''Plant Capacity'', plant_capacity_mw r)])"

text \<open>The four fields that the panel of \<^verbatim>\<open>webapp/.../ResultPanel.tsx\<close> reads.\<close>

definition has_aep_fields :: "AnalysisResult \<Rightarrow> bool" where
  "has_aep_fields r =
     (aep_gwh r \<noteq> None \<and> uncertainty_pct r \<noteq> None \<and> capacity_factor r \<noteq> None
      \<and> plant_capacity_mw r \<noteq> None)"

text \<open>
  Modelled from the spec: the dispatcher's mapping of the library's output onto the
  result bag is backend code that is missing from the sources. ``Field presence varies by
  type, per the documented shape: \<open>aep_gwh\<close>/\<open>uncertainty_pct\<close> for AEP,
  \<open>total_loss_pct\<close> for electrical losses, \<open>wake_loss_pct\<close> for wake losses,
  \<open>ideal_energy_gwh\<close> for turbine-ideal-energy, \<open>gap_pct\<close> for EYA-gap.'' The
  fields that are not specific to a type are those of \<open>common\<close>; \<open>x\<close> and \<open>u\<close> are
  the library's figures.
\<close>

definition result_bag :: "AnalysisType \<Rightarrow> AnalysisResult \<Rightarrow> number \<Rightarrow> number \<Rightarrow> AnalysisResult" where
  "result_bag T common x u =
     common\<lparr>analysis_type := type_name T,
            aep_gwh := (if T = aep_monte_carlo then Some x else None),
            uncertainty_pct := (if T = aep_monte_carlo then Some u else None),
            total_loss_pct := (if T = electrical_losses then Some x else None),
            wake_loss_pct := (if T = wake_losses then Some x else None),
            ideal_energy_gwh := (if T = turbine_ideal_energy then Some x else None),
            gap_pct := (if T = eya_gap_analysis then Some x else None)\<rparr>"

text \<open>Sample stand-ins for two platform renderings: whole numbers with \<open>d\<close> zero decimals, and dates as they are.\<close>

definition example_toFixed :: "nat \<Rightarrow> number \<Rightarrow> string" where
  "example_toFixed d x = show_int \<lfloor>x\<rfloor> @ ''.'' @ replicate d (CHR ''0'')"

definition example_toLocaleString :: "string \<Rightarrow> string" where
  "example_toLocaleString s = s"

section \<open>Ingestion pipeline of the backend\<close>

text \<open>
  The backend (column mapper, dataset registry, upload route) is Python code that is not
  among the sources. The definitions of this section follow the specification,
  sections 3, 4.1, 4.2 and 7.
\<close>

text \<open>
  Modelled from the spec: the backend's error classes are missing from the sources; this
  is the taxonomy of section 7.
\<close>

datatype ingest_error =
  InvalidFormat | TooLarge | MissingRequiredColumn string | IncompleteSchema "string list"
  | DatasetNotFound | AnalysisExecutionError

text \<open>
  Modelled from the spec: the backend's alias table is missing from the sources; ``a
  configurable alias table'' of pairs (source header, canonical field).
\<close>

type_synonym alias_table = "(string \<times> string) list"

text \<open>
  Modelled from the spec: the backend's canonical schema is missing from the sources; ``a
  fixed list of required and optional field names''.
\<close>

record canonical_schema =
  required_fields :: "string list"
  optional_fields :: "string list"

text \<open>
  Modelled from the spec: the alias lookup of the backend's column mapper is missing from
  the sources; a ``case-insensitive exact match against a configurable alias table''.
\<close>

definition lookup_alias :: "alias_table \<Rightarrow> string \<Rightarrow> string option" where
  "lookup_alias A h = map_of (map (\<lambda>(src, canon). (toLowerCase src, canon)) A) (toLowerCase h)"

text \<open>
  Modelled from the spec: the match of a header against the schema is missing from the
  sources; a ``case-insensitive exact match to a canonical name''.
\<close>

definition match_canonical :: "canonical_schema \<Rightarrow> string \<Rightarrow> string option" where
  "match_canonical S h =
     find (\<lambda>c. toLowerCase c = toLowerCase h) (required_fields S @ optional_fields S)"

text \<open>
  Modelled from the spec: the backend's mapping of one header is missing from the
  sources. The alias table decides; ``headers with no alias entry and no case-insensitive
  exact match to a canonical name are left unmapped''.
\<close>

definition canonical_of :: "alias_table \<Rightarrow> canonical_schema \<Rightarrow> string \<Rightarrow> string option" where
  "canonical_of A S h =
     (case lookup_alias A h of Some c \<Rightarrow> Some c | None \<Rightarrow> match_canonical S h)"

text \<open>
  Modelled from the spec: the \<open>ColumnMapping\<close> of section 3 is missing from the
  sources; an ``ordered list of (source header, canonical field) pairs''.
\<close>

definition column_mapping :: "alias_table \<Rightarrow> canonical_schema \<Rightarrow> string list \<Rightarrow> (string \<times> string) list" where
  "column_mapping A S H = List.map_filter (\<lambda>h. map_option (Pair h) (canonical_of A S h)) H"

text \<open>
  Modelled from the spec: the report of unmapped headers is missing from the sources;
  they are ``surfaced as extra columns''.
\<close>

definition extra_columns :: "alias_table \<Rightarrow> canonical_schema \<Rightarrow> string list \<Rightarrow> string list" where
  "extra_columns A S H = filter (\<lambda>h. canonical_of A S h = None) H"

text \<open>
  Modelled from the spec: the check of required fields is missing from the sources; the
  ``canonical required fields with no match''.
\<close>

definition missing_required :: "alias_table \<Rightarrow> canonical_schema \<Rightarrow> string list \<Rightarrow> string list" where
  "missing_required A S H =
     filter (\<lambda>r. r \<notin> set (map snd (column_mapping A S H))) (required_fields S)"

text \<open>
  Modelled from the spec: the backend's column mapper is missing from the sources. It
  produces the mapping, or ``a validation error naming the missing field'' for a required
  field without a match.
\<close>

definition Column_Mapper ::
  "alias_table \<Rightarrow> canonical_schema \<Rightarrow> string list \<Rightarrow> ingest_error + (string \<times> string) list" where
  "Column_Mapper A S H =
     (case missing_required A S H of
        [] \<Rightarrow> Inr (column_mapping A S H)
      | r # _ \<Rightarrow> Inl (MissingRequiredColumn r))"

text \<open>
  Modelled from the spec: the renaming of the parsed table's columns is missing from the
  sources; the mapper ``only renames headers'', and an unmapped header keeps its name.
\<close>

definition renamed_columns :: "alias_table \<Rightarrow> canonical_schema \<Rightarrow> string list \<Rightarrow> string list" where
  "renamed_columns A S H = map (\<lambda>h. case canonical_of A S h of Some c \<Rightarrow> c | None \<Rightarrow> h) H"

text \<open>
  A change of letter case: two characters are case variants when they are equal or are
  the upper-case and lower-case form of one letter; two headers, when they are so
  character by character; two header lists, when they are so header by header.
\<close>

definition case_variant :: "char \<Rightarrow> char \<Rightarrow> bool" where
  "case_variant c d =
     (c = d \<or> (c, d) \<in> set (zip upper_letters lower_letters)
            \<or> (d, c) \<in> set (zip upper_letters lower_letters))"

definition case_permutation :: "string list \<Rightarrow> string list \<Rightarrow> bool" where
  "case_permutation H H' = list_all2 (list_all2 case_variant) H H'"

text \<open>
  Modelled from the spec: the configured alias table is missing from the sources; these
  are the entries that section 4.1 and Scenario A give, ``\<open>Date_time\<close>\<rightarrow>\<open>time\<close>,
  \<open>P_avg\<close>\<rightarrow>\<open>power\<close>, \<open>Ws_avg\<close>\<rightarrow>\<open>wind_speed\<close>''.
\<close>

definition scenario_aliases :: alias_table where
  "scenario_aliases =
     [(''Date_time'', ''time''), (''P_avg'', ''power''), (''Ws_avg'', ''wind_speed'')]"

text \<open>
  A second alias table, used as a sample input only: the same three headers with the
  column names that the repository's deployment plan mentions for the analysis library
  (\<open>WTUR_W\<close> for power, \<open>WMET_HorWdSpd\<close> for wind speed).
\<close>

definition la_haute_borne_aliases :: alias_table where
  "la_haute_borne_aliases =
     [(''Date_time'', ''time''), (''P_avg'', ''WTUR_W''), (''Ws_avg'', ''WMET_HorWdSpd'')]"

text \<open>
  Modelled from the spec: the backend's dataset type is missing from the sources; the
  \<open>Dataset\<close> of section 3, together with the rows of the parsed table. Times are
  seconds.
\<close>

record dataset =
  dataset_id :: string
  dataset_filename :: string
  dataset_row_count :: nat
  dataset_columns :: "string list"
  dataset_created_at :: nat
  expires_at :: nat
  is_default :: bool
  dataset_rows :: "string list list"

text \<open>
  Modelled from the spec: the registry's store is missing from the sources; a ``mapping
  from a generated identifier to an ingested dataset'', ``at most one dataset per id''.
\<close>

type_synonym registry = "string \<rightharpoonup> dataset"

text \<open>Modelled from the spec: the retention constant is missing from the sources; ``24h retention''.\<close>

definition retention :: nat where
  "retention = 24 * 60 * 60"

text \<open>Modelled from the spec: the size limit is missing from the sources; the ``size ceiling (50MB)''.\<close>

definition size_ceiling :: nat where
  "size_ceiling = 50 * 1024 * 1024"

text \<open>
  Modelled from the spec: the splitting of an uploaded text is missing from the sources;
  the pieces of a text between occurrences of a separator.
\<close>

fun split_on :: "char \<Rightarrow> string \<Rightarrow> string list" where
  "split_on sep [] = [[]]"
| "split_on sep (c # cs) =
     (if c = sep then [] # split_on sep cs
      else (case split_on sep cs of [] \<Rightarrow> [[c]] | x # xs \<Rightarrow> (c # x) # xs))"

text \<open>
  Modelled from the spec: the parsing of an uploaded CSV text is missing from the
  sources. The first non-empty line is the header line, every further non-empty line is
  a data line, fields are separated by commas; a text without a header line is
  unparseable.
\<close>

definition parse_csv :: "string \<Rightarrow> (string list \<times> string list list) option" where
  "parse_csv text =
     (case filter (\<lambda>l. l \<noteq> []) (split_on (CHR 0x0A) text) of
        [] \<Rightarrow> None
      | header # data_lines \<Rightarrow> Some (split_on CHR '','' header, map (split_on CHR '','') data_lines))"

text \<open>
  Modelled from the spec: the registry's \<open>put\<close> is missing from the sources. It rejects
  a file above the size ceiling before parsing and an unparseable file before insertion,
  applies the column mapper, and stores the dataset under the generated id \<open>new_id\<close>
  with 24 hours of retention; the row count is that of the parsed table.
\<close>

definition put ::
  "alias_table \<Rightarrow> canonical_schema \<Rightarrow> string \<Rightarrow> nat \<Rightarrow> registry \<Rightarrow> string \<Rightarrow> string
     \<Rightarrow> ingest_error + (dataset \<times> registry)" where
  "put A S new_id now reg bytes fname =
     (if length bytes > size_ceiling then Inl TooLarge
      else case parse_csv bytes of
        None \<Rightarrow> Inl InvalidFormat
      | Some (H, data_lines) \<Rightarrow>
          (case Column_Mapper A S H of
             Inl e \<Rightarrow> Inl e
           | Inr m \<Rightarrow>
               (let d = \<lparr>dataset_id = new_id, dataset_filename = fname,
                          dataset_row_count = length data_lines,
                          dataset_columns = renamed_columns A S H,
                          dataset_created_at = now, expires_at = now + retention,
                          is_default = False, dataset_rows = data_lines\<rparr>
                in Inr (d, reg(new_id \<mapsto> d)))))"

text \<open>
  Modelled from the spec: the registry's \<open>get\<close> is missing from the sources. It answers
  \<open>DatasetNotFound\<close> for an id that is not stored; the bundle that the builder makes of
  a stored dataset is left out.
\<close>

definition get :: "registry \<Rightarrow> string \<Rightarrow> ingest_error + dataset" where
  "get reg i = (case reg i of None \<Rightarrow> Inl DatasetNotFound | Some d \<Rightarrow> Inr d)"

text \<open>
  Modelled from the spec: the expiry test is missing from the sources. A dataset is
  destroyed ``once \<open>expires_at\<close> passes (24h retention) or never, for the default
  dataset, which is immutable and permanent''.
\<close>

definition expired :: "nat \<Rightarrow> dataset \<Rightarrow> bool" where
  "expired now d = (\<not> is_default d \<and> expires_at d < now)"

text \<open>
  Modelled from the spec: the registry's \<open>delete_expired\<close> is missing from the sources;
  it runs ``to purge datasets whose \<open>expires_at\<close> has passed''.
\<close>

definition delete_expired :: "nat \<Rightarrow> registry \<Rightarrow> registry" where
  "delete_expired now reg =
     (\<lambda>i. case reg i of None \<Rightarrow> None | Some d \<Rightarrow> if expired now d then None else Some d)"

text \<open>
  Modelled from the spec: the route \<^verbatim>\<open>POST /upload-plant-data\<close> is missing from
  the sources. Its answer carries the id, the file name, and the \<open>row_count\<close> and
  \<open>columns\<close> that ``reflect the actually-parsed data''.
\<close>

definition upload_plant_data ::
  "alias_table \<Rightarrow> canonical_schema \<Rightarrow> string \<Rightarrow> nat \<Rightarrow> registry \<Rightarrow> string \<Rightarrow> string
     \<Rightarrow> ingest_error + (upload_response \<times> registry)" where
  "upload_plant_data A S new_id now reg bytes fname =
     (case put A S new_id now reg bytes fname of
        Inl e \<Rightarrow> Inl e
      | Inr (d, reg') \<Rightarrow>
          Inr (\<lparr>up_status = ''success'', up_message = ''File uploaded successfully'',
                file_id = dataset_id d, filename = dataset_filename d, file_type = ''csv'',
                row_count = dataset_row_count d, columns = dataset_columns d,
                file_size_bytes = length bytes\<rparr>, reg'))"

text \<open>
  Modelled from the spec: the startup of the registry is missing from the sources; the
  bundled sample is ``pre-populated once at startup'' under the sentinel id, as the
  default dataset.
\<close>

definition sample_dataset :: dataset where
  "sample_dataset =
     \<lparr>dataset_id = ''default'', dataset_filename = ''la-haute-borne-data-2014-2015.csv'',
      dataset_row_count = 0, dataset_columns = [''time'', ''WTUR_W'', ''WMET_HorWdSpd''],
      dataset_created_at = 0, expires_at = 0, is_default = True, dataset_rows = []\<rparr>"

text \<open>
  Modelled from the spec: the registry at startup is missing from the sources; it holds
  the default dataset and nothing else.
\<close>

definition startup_registry :: registry where
  "startup_registry = [''default'' \<mapsto> sample_dataset]"

text \<open>
  Modelled from the spec: the life of the registry is missing from the sources. It starts
  with the default dataset; uploads call \<open>put\<close> with a generated id, and the
  background cleanup calls \<open>delete_expired\<close> at some time. A rejected upload leaves
  the registry as it is.
\<close>

datatype registry_event = Upload string nat string string | Cleanup nat

fun upload_id :: "registry_event \<Rightarrow> string option" where
  "upload_id (Upload new_id now bytes fname) = Some new_id"
| "upload_id (Cleanup now) = None"

fun registry_step :: "alias_table \<Rightarrow> canonical_schema \<Rightarrow> registry \<Rightarrow> registry_event \<Rightarrow> registry" where
  "registry_step A S reg (Upload new_id now bytes fname) =
     (case put A S new_id now reg bytes fname of Inl e \<Rightarrow> reg | Inr (d, reg') \<Rightarrow> reg')"
| "registry_step A S reg (Cleanup now) = delete_expired now reg"

definition registry_run :: "alias_table \<Rightarrow> canonical_schema \<Rightarrow> registry_event list \<Rightarrow> registry" where
  "registry_run A S es = foldl (registry_step A S) startup_registry es"

text \<open>
  Sample inputs: a CSV text with the La Haute Borne headers and two data lines, a schema
  that requires the three canonical fields, and the dataset that an upload of the text
  at time 1000 stores.
\<close>

definition scenario_A_csv :: string where
  "scenario_A_csv =
     ''Date_time,P_avg,Ws_avg'' @ [CHR 0x0A] @
     ''2014-01-01T00:00:00,120.5,5.3'' @ [CHR 0x0A] @
     ''2014-01-01T00:10:00,133.0,5.9'' @ [CHR 0x0A]"

definition scada_schema :: canonical_schema where
  "scada_schema =
     \<lparr>required_fields = [''time'', ''WTUR_W'', ''WMET_HorWdSpd''], optional_fields = []\<rparr>"

definition uploaded_dataset :: dataset where
  "uploaded_dataset =
     \<lparr>dataset_id = ''3f2a'', dataset_filename = ''scada.csv'', dataset_row_count = 2,
      dataset_columns = [''time'', ''WTUR_W'', ''WMET_HorWdSpd''],
      dataset_created_at = 1000, expires_at = 1000 + retention, is_default = False,
      dataset_rows = [[''2014-01-01T00:00:00'', ''120.5'', ''5.3''],
                      [''2014-01-01T00:10:00'', ''133.0'', ''5.9'']]\<rparr>"

text \<open>The two figures of an upload answer that the scenarios speak about.\<close>

definition rows_and_columns ::
  "ingest_error + (upload_response \<times> registry) \<Rightarrow> ingest_error + (nat \<times> string list)" where
  "rows_and_columns answer =
     (case answer of Inl e \<Rightarrow> Inl e | Inr (response, reg) \<Rightarrow> Inr (row_count response, columns response))"

section \<open>Comparison view summary (ComparisonView.tsx)\<close>

text \<open>
  JavaScript numbers are IEEE-754 binary64 values. A finite double is a rational number
  \<open>m \<times> 2\<^sup>q\<close> with \<open>\<bar>m\<bar> < 2\<^sup>5\<^sup>3\<close> and \<open>q \<ge> -1074\<close>, and \<^verbatim>\<open>+\<close>,
  \<^verbatim>\<open>-\<close> and \<^verbatim>\<open>/\<close> return the exact result rounded to the nearest
  double, ties to the even significand. \<open>round_double\<close> is that rounding; it is the
  result of the operation whenever the rounded value is below \<open>2\<^sup>1\<^sup>0\<^sup>2\<^sup>4\<close> in
  magnitude (beyond that JavaScript yields an infinity, which is not modelled). The two
  zeros of the format are one number here; they compare equal in JavaScript.
\<close>

definition pow2 :: "int \<Rightarrow> rat" where
  "pow2 e = (if 0 \<le> e then 2 ^ nat e else 1 / 2 ^ nat (- e))"

text \<open>The binary exponent of a positive rational: the \<open>k\<close> with \<open>2\<^sup>k \<le> a < 2\<^sup>k\<^sup>+\<^sup>1\<close>.\<close>

definition floor_log2 :: "rat \<Rightarrow> int" where
  "floor_log2 a =
     (let (p, q) = quotient_of a; k = bitlen p - bitlen q
      in if pow2 k \<le> a then k else k - 1)"

definition round_half_even :: "rat \<Rightarrow> int" where
  "round_half_even m =
     (let f = \<lfloor>m\<rfloor>; r = m - of_int f
      in if r < 1 / 2 then f else if 1 / 2 < r then f + 1 else if even f then f else f + 1)"

definition round_double :: "rat \<Rightarrow> rat" where
  "round_double x =
     (if x = 0 then 0
      else let q = max (floor_log2 \<bar>x\<bar> - 52) (- 1074)
           in of_int (round_half_even (x / pow2 q)) * pow2 q)"

definition is_double :: "rat \<Rightarrow> bool" where
  "is_double x = (round_double x = x \<and> \<bar>x\<bar> < 2 ^ 1024)"

definition fadd :: "number \<Rightarrow> number \<Rightarrow> number" where
  "fadd x y = round_double (x + y)"

definition fsub :: "number \<Rightarrow> number \<Rightarrow> number" where
  "fsub x y = round_double (x - y)"

definition fdiv :: "number \<Rightarrow> number \<Rightarrow> number" where
  "fdiv x y = round_double (x / y)"

text \<open>
  The \<^verbatim>\<open>metrics\<close> table of the component; the summary uses
  \<^verbatim>\<open>metrics.slice(0, 2)\<close>. Every \<^verbatim>\<open>format\<close> is
  \<^verbatim>\<open>(v) => v.toFixed(d)\<close>.
\<close>

record metric =
  metric_key :: "AnalysisResult \<Rightarrow> number option"
  metric_label :: string
  metric_digits :: nat

definition metrics :: "metric list" where
  "metrics =
     [\<lparr>metric_key = aep_gwh, metric_label = ''AEP (GWh)'', metric_digits = 2\<rparr>,
      \<lparr>metric_key = uncertainty_pct, metric_label = ''Uncertainty (%)'', metric_digits = 2\<rparr>,
      \<lparr>metric_key = capacity_factor, metric_label = ''Capacity Factor (%)'', metric_digits = 1\<rparr>,
      \<lparr>metric_key = plant_capacity_mw, metric_label = ''Capacity (MW)'', metric_digits = 1\<rparr>]"

text \<open>
  \<^verbatim>\<open>analyses.map((a) => a.result[metric.key]).filter((v) => typeof v === 'number')\<close>:
  the values of the analyses that carry the metric, in order.
\<close>

definition metric_values :: "(AnalysisResult \<Rightarrow> number option) \<Rightarrow> AnalysisResponse list \<Rightarrow> number list" where
  "metric_values key analyses = List.map_filter (\<lambda>a. key (result a)) analyses"

text \<open>
  The four numbers of a card. \<^verbatim>\<open>if (values.length === 0) return null\<close> is
  \<open>None\<close>. Otherwise
  \<^verbatim>\<open>avg = values.reduce((sum, v) => sum + v, 0) / values.length\<close>,
  \<^verbatim>\<open>min = Math.min(...values)\<close>, \<^verbatim>\<open>max = Math.max(...values)\<close> and
  \<^verbatim>\<open>range = max - min\<close>.
\<close>

record summary_stats =
  st_avg :: number
  st_min :: number
  st_max :: number
  st_range :: number

fun summary_of :: "number list \<Rightarrow> summary_stats option" where
  "summary_of [] = None"
| "summary_of (v # vs) =
     (let avg = fdiv (foldl fadd 0 (v # vs)) (of_nat (length (v # vs)));
          mn = fold min vs v;
          mx = fold max vs v;
          range = fsub mx mn
      in Some \<lparr>st_avg = avg, st_min = mn, st_max = mx, st_range = range\<rparr>)"

record summary_card =
  card_label :: string
  card_average :: string
  card_range :: string
  card_min :: string
  card_max :: string

definition summary_card_of ::
  "(nat \<Rightarrow> number \<Rightarrow> string) \<Rightarrow> AnalysisResponse list \<Rightarrow> metric \<Rightarrow> summary_card option" where
  "summary_card_of toFixed analyses m =
     (case summary_of (metric_values (metric_key m) analyses) of
        None \<Rightarrow> None
      | Some s \<Rightarrow>
          Some \<lparr>card_label = metric_label m,
                card_average = toFixed (metric_digits m) (st_avg s),
                card_range = toFixed (metric_digits m) (st_range s),
                card_min = ''Min: '' @ toFixed (metric_digits m) (st_min s),
                card_max = ''Max: '' @ toFixed (metric_digits m) (st_max s)\<rparr>)"

text \<open>
  The summary row of \<^verbatim>\<open>ComparisonView\<close>: nothing at all for an empty list of
  analyses (\<^verbatim>\<open>if (analyses.length === 0) return null\<close>), otherwise one entry per
  metric of the slice, \<open>None\<close> where no card is rendered.
\<close>

definition ComparisonView_summary ::
  "(nat \<Rightarrow> number \<Rightarrow> string) \<Rightarrow> AnalysisResponse list \<Rightarrow> summary_card option list option" where
  "ComparisonView_summary toFixed analyses =
     (if length analyses = 0 then None
      else Some (map (summary_card_of toFixed analyses) (take 2 metrics)))"

text \<open>The running sum incurs no rounding: every partial sum is a double.\<close>

fun exact_sum :: "number \<Rightarrow> number list \<Rightarrow> bool" where
  "exact_sum acc [] = True"
| "exact_sum acc (v # vs) = (is_double (acc + v) \<and> exact_sum (acc + v) vs)"

text \<open>The double nearest to \<open>0.1\<close>, and an analysis whose AEP is that number.\<close>

definition tenth :: number where
  "tenth = 3602879701896397 / 36028797018963968"

definition tenth_example :: AnalysisResponse where
  "tenth_example =
     \<lparr>resp_id = ''aep_3'', resp_status = completed,
      result = empty_result\<lparr>analysis_type := ''aep_monte_carlo'', aep_gwh := Some tenth\<rparr>,
      created_at = None, completed_at = None, resp_error = None\<rparr>"

definition aep_34_example :: AnalysisResponse where
  "aep_34_example =
     \<lparr>resp_id = ''aep_4'', resp_status = completed,
      result = empty_result\<lparr>analysis_type := ''aep_monte_carlo'', aep_gwh := Some 34\<rparr>,
      created_at = None, completed_at = None, resp_error = None\<rparr>"

section \<open>Iteration cap\<close>

text \<open>
  Claim C6. For every integer \<open>n\<close> entered in the analysis form, the iterations value
  sent in the request equals \<open>min (max n 50) 5000\<close>; it lies between 50 and 5000, and an
  input already in that range is sent unchanged.
\<close>

theorem iterations_capped:
  "body_iterations (submit_form activeDataset n) = min (max n 50) 5000
   \<and> 50 \<le> body_iterations (submit_form activeDataset n)
   \<and> body_iterations (submit_form activeDataset n) \<le> 5000
   \<and> (50 \<le> n \<and> n \<le> 5000 \<longrightarrow> body_iterations (submit_form activeDataset n) = n)"
  by (simp add: submit_form_def runAnalysis_def runAepAnalysis_body_def handleSubmit_def)

theorem iterations_capped_witness:
  "(50::int) \<le> 1000 \<and> (1000::int) \<le> 5000
   \<and> body_iterations (submit_form initial_activeDataset 1000) = 1000
   \<and> body_iterations (submit_form initial_activeDataset 7) = 50
   \<and> body_iterations (submit_form initial_activeDataset 99999) = 5000"
  using iterations_capped [of initial_activeDataset 1000]
        iterations_capped [of initial_activeDataset 7]
        iterations_capped [of initial_activeDataset 99999]
  by simp

section \<open>Dataset resolution on the dashboard\<close>

lemma app_run_snoc: "app_run (es @ [e]) = app_step (app_run es) e"
  by (simp add: app_run_def)

lemma app_run_shape:
  "\<exists>d. app_run es = Some d \<and> (isDefault d \<longrightarrow> d = default_dataset)"
proof (induction es rule: rev_induct)
  case Nil
  show ?case by (simp add: app_run_def initial_activeDataset_def default_dataset_def)
next
  case (snoc e es)
  then obtain d where d: "app_run es = Some d" "isDefault d \<longrightarrow> d = default_dataset"
    by blast
  show ?case
  proof (cases e)
    case (UploadSucceeded r)
    then show ?thesis by (simp add: app_run_snoc)
  next
    case UploadFailed
    then show ?thesis using d by (simp add: app_run_snoc)
  next
    case ClearDataset
    then show ?thesis by (simp add: app_run_snoc default_dataset_def)
  qed
qed

text \<open>
  Claim C8. The default dataset's id is the sentinel string \<open>default\<close>. In every state
  the dashboard can reach (any sequence of uploads and clears from the initial state) an
  active dataset exists, and the request of an analysis run omits \<open>file_id\<close> exactly
  when the active dataset is the default one; otherwise it carries the id of the
  uploaded dataset.
\<close>

theorem file_id_omitted_iff_default:
  "ds_id default_dataset = ''default''
   \<and> (\<exists>d. app_run es = Some d
        \<and> (body_file_id (runAnalysis (app_run es) n) = None \<longleftrightarrow> isDefault d)
        \<and> (isDefault d \<longrightarrow> d = default_dataset)
        \<and> (\<not> isDefault d \<longrightarrow> body_file_id (runAnalysis (app_run es) n) = Some (ds_id d)))"
proof -
  obtain d where d: "app_run es = Some d" "isDefault d \<longrightarrow> d = default_dataset"
    using app_run_shape by blast
  have "body_file_id (runAnalysis (app_run es) n) = (if isDefault d then None else Some (ds_id d))"
    using d(1) by (simp add: runAnalysis_def runAepAnalysis_body_def runAnalysis_file_id_def)
  then show ?thesis using d by (simp add: default_dataset_def)
qed

theorem file_id_omitted_iff_default_witness:
  "body_file_id (runAnalysis (app_run []) 1000) = None
   \<and> body_file_id (runAnalysis (app_run
        [UploadSucceeded \<lparr>up_status = ''success'', up_message = ''ok'', file_id = ''3f2a'',
           filename = ''scada.csv'', file_type = ''csv'', row_count = 2,
           columns = [''time''], file_size_bytes = 64\<rparr>]) 1000) = Some ''3f2a''"
  using file_id_omitted_iff_default [of "[]" 1000]
        file_id_omitted_iff_default [of
          "[UploadSucceeded \<lparr>up_status = ''success'', up_message = ''ok'', file_id = ''3f2a'',
             filename = ''scada.csv'', file_type = ''csv'', row_count = 2,
             columns = [''time''], file_size_bytes = 64\<rparr>]" 1000]
  by (simp add: app_run_def initial_activeDataset_def default_dataset_def)

section \<open>Long-running types stay out of the multi-run path\<close>

lemma find_option:
  "find (\<lambda>opt. opt_value opt = t) ANALYSIS_OPTIONS \<noteq> None
   \<and> is_disabled (find (\<lambda>opt. opt_value opt = t) ANALYSIS_OPTIONS) = long_running t"
  by (cases t) (simp_all add: ANALYSIS_OPTIONS_def is_disabled_def long_running_def)

lemma set_toggleSelection:
  "set (toggleSelection s t) \<subseteq> set s \<union> {x. \<not> long_running x}"
  using find_option [of t]
  by (auto simp: toggleSelection_def Let_def set_has_def set_delete_def set_add_def)

lemma selectAll_value: "selectAll = [aep_monte_carlo, electrical_losses, eya_gap_analysis]"
  by (simp add: selectAll_def ANALYSIS_OPTIONS_def is_disabled_def new_Set_def set_add_def)

lemma clearAll_value: "clearAll = []"
  by (simp add: clearAll_def new_Set_def)

lemma selector_ok_step: "selector_ok s \<Longrightarrow> selector_ok (selector_step s e)"
proof (cases e)
  case (Toggle t)
  assume "selector_ok s"
  then show ?thesis using Toggle set_toggleSelection [of "selectedTypes s" t]
    by (auto simp: selector_ok_def)
next
  case SelectAll
  assume "selector_ok s"
  then show ?thesis using SelectAll
    by (simp add: selector_ok_def selectAll_value long_running_def)
next
  case ClearAll
  assume "selector_ok s"
  then show ?thesis using ClearAll by (simp add: selector_ok_def clearAll_value)
next
  case RunSelected
  assume "selector_ok s"
  then show ?thesis using RunSelected
    by (auto simp: selector_ok_def handleRunMultiple_def)
qed

lemma selector_ok_run: "selector_ok (selector_run es)"
proof (induction es rule: rev_induct)
  case Nil
  show ?case by (simp add: selector_run_def selector_init_def selector_ok_def new_Set_def)
next
  case (snoc e es)
  then show ?case by (simp add: selector_run_def selector_ok_step)
qed

text \<open>
  Claim C5. Wake losses and turbine ideal energy are kept out of the multi-run path:
  after any sequence of toggles, Select All, Clear All and Run clicks neither of them is
  in the selected set, and no call of \<open>onRunMultiple\<close> has received either of them.
  A single run by type stays available for all five types: each is posted to its own
  route, and none raises the unknown-type error.
\<close>

theorem long_running_never_selected:
  "wake_losses \<notin> set (selectedTypes (selector_run es))
   \<and> turbine_ideal_energy \<notin> set (selectedTypes (selector_run es))
   \<and> (\<forall>ts \<in> set (onRunMultiple_calls (selector_run es)).
         wake_losses \<notin> set ts \<and> turbine_ideal_energy \<notin> set ts)
   \<and> runAnalysisByType_endpoint aep_monte_carlo = Inr ''/api/v1/analysis/aep''
   \<and> runAnalysisByType_endpoint electrical_losses = Inr ''/api/v1/analysis/electrical-losses''
   \<and> runAnalysisByType_endpoint wake_losses = Inr ''/api/v1/analysis/wake-losses''
   \<and> runAnalysisByType_endpoint turbine_ideal_energy
         = Inr ''/api/v1/analysis/turbine-ideal-energy''
   \<and> runAnalysisByType_endpoint eya_gap_analysis = Inr ''/api/v1/analysis/eya-gap''"
proof -
  have ok: "selector_ok (selector_run es)" by (rule selector_ok_run)
  have sel: "wake_losses \<notin> set (selectedTypes (selector_run es))
   \<and> turbine_ideal_energy \<notin> set (selectedTypes (selector_run es))
   \<and> (\<forall>ts \<in> set (onRunMultiple_calls (selector_run es)).
         wake_losses \<notin> set ts \<and> turbine_ideal_energy \<notin> set ts)"
    using ok by (auto simp: selector_ok_def long_running_def)
  have ep: "runAnalysisByType_endpoint aep_monte_carlo = Inr ''/api/v1/analysis/aep''"
      "runAnalysisByType_endpoint electrical_losses = Inr ''/api/v1/analysis/electrical-losses''"
      "runAnalysisByType_endpoint wake_losses = Inr ''/api/v1/analysis/wake-losses''"
      "runAnalysisByType_endpoint turbine_ideal_energy = Inr ''/api/v1/analysis/turbine-ideal-energy''"
      "runAnalysisByType_endpoint eya_gap_analysis = Inr ''/api/v1/analysis/eya-gap''"
    by (simp_all add: runAnalysisByType_endpoint_def endpoints_def)
  from sel ep show ?thesis by blast
qed

theorem long_running_never_selected_witness:
  "onRunMultiple_calls (selector_run
      [Toggle wake_losses, SelectAll, Toggle turbine_ideal_energy, RunSelected])
     = [[aep_monte_carlo, electrical_losses, eya_gap_analysis]]
   \<and> [aep_monte_carlo, electrical_losses, eya_gap_analysis]
        \<in> set (onRunMultiple_calls (selector_run
            [Toggle wake_losses, SelectAll, Toggle turbine_ideal_energy, RunSelected]))
   \<and> wake_losses \<notin> set [aep_monte_carlo, electrical_losses, eya_gap_analysis]
   \<and> turbine_ideal_energy \<notin> set [aep_monte_carlo, electrical_losses, eya_gap_analysis]"
proof -
  have run: "onRunMultiple_calls (selector_run
      [Toggle wake_losses, SelectAll, Toggle turbine_ideal_energy, RunSelected])
     = [[aep_monte_carlo, electrical_losses, eya_gap_analysis]]"
    by (simp add: selector_run_def selector_init_def toggleSelection_def ANALYSIS_OPTIONS_def
        is_disabled_def selectAll_value handleRunMultiple_def new_Set_def)
  from run long_running_never_selected
         [of "[Toggle wake_losses, SelectAll, Toggle turbine_ideal_energy, RunSelected]"]
  show ?thesis by simp
qed

section \<open>Errors at the API-client boundary\<close>

text \<open>
  Claim C7, as stated, at a response with status 200 whose body is not JSON: the
  response is ok, and \<open>request\<close> throws instead of returning a parsed body.
\<close>

theorem request_ok_without_json:
  "ok html_200 \<and> request (Inr html_200) = Inl SyntaxError"
  by (simp add: html_200_def request_def)

text \<open>
  Claim C7, amended. \<open>request\<close> returns a value exactly when the response is ok and its
  body parses as JSON, and the value is the parsed body. On a response that is not ok it
  throws an error that carries the body text, or the message with the status code when
  the body is empty. On an ok response whose body does not parse, the parse error is
  thrown. A rejected fetch is thrown on. In no case is there a partial result.
\<close>

theorem request_no_error_swallowed:
  "(request (Inr r) = Inr v \<longleftrightarrow> ok r \<and> json_body r = Some v)
   \<and> (\<not> ok r \<and> text_body r \<noteq> [] \<longrightarrow> request (Inr r) = Inl (Error (text_body r)))
   \<and> (\<not> ok r \<and> text_body r = [] \<longrightarrow>
         request (Inr r) = Inl (Error (''Request failed with '' @ show_nat (status r))))
   \<and> (ok r \<and> json_body r = None \<longrightarrow> request (Inr r) = Inl SyntaxError)
   \<and> request (Inl e) = Inl e"
  by (auto simp: request_def Let_def split: option.splits)

theorem request_no_error_swallowed_witness:
  "request (Inr \<lparr>ok = True, status = 200, text_body = ''[1000]'',
                  json_body = Some [1000::nat]\<rparr>) = Inr [1000]
   \<and> request (Inr \<lparr>ok = False, status = 404, text_body = ''Dataset not found'',
                  json_body = (None :: nat list option)\<rparr>)
       = Inl (Error ''Dataset not found'')
   \<and> request (Inr \<lparr>ok = False, status = 502, text_body = [],
                  json_body = (None :: nat list option)\<rparr>)
       = Inl (Error ''Request failed with 502'')
   \<and> request (Inr \<lparr>ok = True, status = 200, text_body = ''<html></html>'',
                  json_body = (None :: nat list option)\<rparr>) = Inl SyntaxError"
proof -
  have s: "show_nat 502 = ''502''"
    by (simp add: show_nat.simps digit_char_def)
  have a: "request (Inr \<lparr>ok = True, status = 200, text_body = ''[1000]'',
                  json_body = Some [1000::nat]\<rparr>) = Inr [1000]"
    using request_no_error_swallowed
            [of "\<lparr>ok = True, status = 200, text_body = ''[1000]'',
                   json_body = Some [1000::nat]\<rparr>" "[1000]" TypeError]
    by auto
  have b: "request (Inr \<lparr>ok = False, status = 404, text_body = ''Dataset not found'',
                  json_body = (None :: nat list option)\<rparr>)
       = Inl (Error ''Dataset not found'')"
    using request_no_error_swallowed
            [of "\<lparr>ok = False, status = 404, text_body = ''Dataset not found'',
                   json_body = (None :: nat list option)\<rparr>" "[]" TypeError]
    by auto
  have c: "request (Inr \<lparr>ok = False, status = 502, text_body = [],
                  json_body = (None :: nat list option)\<rparr>)
       = Inl (Error ''Request failed with 502'')"
    using request_no_error_swallowed
            [of "\<lparr>ok = False, status = 502, text_body = [],
                   json_body = (None :: nat list option)\<rparr>" "[]" TypeError]
    by (auto simp: s)
  have d: "request (Inr \<lparr>ok = True, status = 200, text_body = ''<html></html>'',
                  json_body = (None :: nat list option)\<rparr>) = Inl SyntaxError"
    using request_no_error_swallowed
            [of "\<lparr>ok = True, status = 200, text_body = ''<html></html>'',
                   json_body = (None :: nat list option)\<rparr>" "[]" TypeError]
    by auto
  from a b c d show ?thesis by blast
qed

section \<open>Comparison export\<close>

lemma Number_toString_zero: "Number_toString frac_str 0 = ''0''"
  by (simp add: Number_toString_def show_nat.simps digit_char_def)

lemma comparison_row_expected:
  "created_cell toISOString a = Inr c \<Longrightarrow>
   comparison_row frac_str toISOString a = Inr (expected_row frac_str a c)"
  by (simp add: comparison_row_def expected_row_def or_zero_def Number_toString_zero
      split: option.splits)

lemma map_rows_total:
  "\<forall>x \<in> set xs. \<exists>y. f x = Inr y \<Longrightarrow>
   \<exists>ys. map_rows f xs = Inr ys \<and> length ys = length xs
        \<and> (\<forall>i < length xs. f (xs ! i) = Inr (ys ! i))"
proof (induction xs)
  case Nil
  then show ?case by simp
next
  case (Cons x xs)
  then obtain y where y: "f x = Inr y" by auto
  from Cons obtain ys where ys: "map_rows f xs = Inr ys" "length ys = length xs"
      "\<forall>i < length xs. f (xs ! i) = Inr (ys ! i)" by auto
  have "\<forall>i < length (x # xs). f ((x # xs) ! i) = Inr ((y # ys) ! i)"
    using y ys(3) by (auto simp: nth_Cons split: nat.splits)
  then show ?case using y ys by auto
qed

lemma map_rows_map: "map_rows f (map g xs) = map_rows (\<lambda>x. f (g x)) xs"
  by (induction xs) (simp_all split: sum.splits)

lemma created_cell_zero_fill: "created_cell toISOString (zero_fill a) = created_cell toISOString a"
  by (simp add: created_cell_def zero_fill_def)

lemma comparison_row_zero_fill:
  "comparison_row frac_str toISOString (zero_fill a) = comparison_row frac_str toISOString a"
  unfolding comparison_row_def created_cell_zero_fill
  by (simp add: zero_fill_def or_zero_def split: sum.splits)

lemma map_rows_Inr:
  "map_rows f xs = Inr ys \<Longrightarrow>
   length ys = length xs \<and> (\<forall>i < length xs. f (xs ! i) = Inr (ys ! i))"
proof (induction xs arbitrary: ys)
  case Nil
  then show ?case by simp
next
  case (Cons x xs)
  from Cons.prems obtain y zs where y: "f x = Inr y" and zs: "map_rows f xs = Inr zs"
    and ys: "ys = y # zs"
    by (auto split: sum.splits)
  from Cons.IH [OF zs] have "length zs = length xs" "\<forall>i < length xs. f (xs ! i) = Inr (zs ! i)"
    by simp_all
  then show ?case using y ys by (auto simp: nth_Cons split: nat.splits)
qed

lemma comparison_row_Inr:
  "comparison_row frac_str toISOString a = Inr r \<Longrightarrow>
   \<exists>c. created_cell toISOString a = Inr c \<and> r = expected_row frac_str a c"
  by (cases "created_cell toISOString a")
     (auto simp: comparison_row_def expected_row_def or_zero_def Number_toString_zero
           split: option.splits)

lemma join_comma: "join '','' xs = tl (concat (map (\<lambda>x. CHR '','' # x) xs))"
  by (induction "'',''" xs rule: join.induct) simp_all

lemma join_lines: "join [nl] (h # ls) = h @ concat (map (\<lambda>l. nl # l) ls)"
  by (induction ls arbitrary: h) simp_all

lemma csv_line_cells:
  "csv_line row = tl (concat (map (\<lambda>cell. CHR '','' # CHR 0x22 # cell @ [CHR 0x22]) row))"
  by (simp add: csv_line_def join_comma quote_cell_def comp_def)

lemma csv_content_text:
  "csv_content comparison_headers rows =
     ''Analysis ID,Type,AEP (GWh),Uncertainty (%),Capacity Factor (%),Iterations,Status,Created At''
     @ concat (map (\<lambda>row. CHR 0x0A #
                  tl (concat (map (\<lambda>cell. CHR '','' # CHR 0x22 # cell @ [CHR 0x22]) row))) rows)"
proof -
  have h: "join '','' comparison_headers =
     ''Analysis ID,Type,AEP (GWh),Uncertainty (%),Capacity Factor (%),Iterations,Status,Created At''"
    by (simp add: comparison_headers_def)
  show ?thesis
    unfolding csv_content_def join_lines h
    by (simp add: csv_line_cells comp_def)
qed

lemma line_feeds_concat:
  "\<forall>l \<in> set ls. nl \<notin> set l \<Longrightarrow>
   length (filter (\<lambda>c. c = nl) (concat (map (\<lambda>l. nl # l) ls))) = length ls"
proof (induction ls)
  case Nil
  then show ?case by simp
next
  case (Cons l ls)
  then have "filter (\<lambda>c. c = nl) l = []" by (auto simp: filter_empty_conv)
  with Cons show ?case by simp
qed

lemma set_tl_subset: "set (tl xs) \<subseteq> set xs"
  by (cases xs) auto

lemma no_line_feed_in_line:
  assumes "\<forall>cell \<in> set row. CHR 0x0A \<notin> set cell"
  shows "CHR 0x0A \<notin> set (tl (concat (map (\<lambda>cell. CHR '','' # CHR 0x22 # cell @ [CHR 0x22]) row)))"
proof -
  have "CHR 0x0A \<notin> set (concat (map (\<lambda>cell. CHR '','' # CHR 0x22 # cell @ [CHR 0x22]) row))"
    using assms by auto
  then show ?thesis using set_tl_subset by fastforce
qed

lemma line_feeds_text:
  assumes "\<forall>row \<in> set rows. \<forall>cell \<in> set row. CHR 0x0A \<notin> set cell"
  shows "length (filter (\<lambda>c. c = CHR 0x0A)
           (''Analysis ID,Type,AEP (GWh),Uncertainty (%),Capacity Factor (%),Iterations,Status,Created At''
            @ concat (map (\<lambda>row. CHR 0x0A #
                  tl (concat (map (\<lambda>cell. CHR '','' # CHR 0x22 # cell @ [CHR 0x22]) row))) rows)))
         = length rows"
proof -
  let ?line = "\<lambda>row. tl (concat (map (\<lambda>cell. CHR '','' # CHR 0x22 # cell @ [CHR 0x22]) row))"
  have "\<forall>l \<in> set (map ?line rows). CHR 0x0A \<notin> set l"
    using assms no_line_feed_in_line by auto
  from line_feeds_concat [OF this]
  have "length (filter (\<lambda>c. c = CHR 0x0A) (concat (map (\<lambda>row. CHR 0x0A # ?line row) rows)))
          = length rows"
    by (simp add: comp_def)
  then show ?thesis by simp
qed

lemma created_cell_error: "created_cell toISOString a = Inl e \<Longrightarrow> e = RangeError"
  by (auto simp: created_cell_def split: option.splits if_splits)

lemma map_rows_first_error:
  "\<exists>x \<in> set xs. \<exists>e. f x = Inl e \<Longrightarrow>
   \<exists>x \<in> set xs. \<exists>e. f x = Inl e \<and> map_rows f xs = Inl e"
proof (induction xs)
  case Nil
  then show ?case by simp
next
  case (Cons x xs)
  show ?case
  proof (cases "f x")
    case (Inl e)
    then show ?thesis by auto
  next
    case (Inr y)
    with Cons.prems have "\<exists>x \<in> set xs. \<exists>e. f x = Inl e" by auto
    from Cons.IH [OF this] obtain z e where "z \<in> set xs" "f z = Inl e" "map_rows f xs = Inl e"
      by blast
    with Inr show ?thesis by auto
  qed
qed

lemma export_bad_date:
  assumes "\<exists>a \<in> set analyses. created_cell toISOString a = Inl RangeError"
  shows "exportComparisonToCSV frac_str toISOString now_iso analyses = Inl RangeError"
proof -
  let ?f = "comparison_row frac_str toISOString"
  from assms obtain b where b: "b \<in> set analyses" "created_cell toISOString b = Inl RangeError"
    by blast
  from b(2) have "?f b = Inl RangeError" by (simp add: comparison_row_def)
  with b(1) have "\<exists>a \<in> set analyses. \<exists>e. ?f a = Inl e" by blast
  from map_rows_first_error [OF this] obtain a e where a: "a \<in> set analyses" "?f a = Inl e"
      "map_rows ?f analyses = Inl e"
    by blast
  from a(2) have "created_cell toISOString a = Inl e"
    by (auto simp: comparison_row_def split: sum.splits)
  then have "e = RangeError" by (rule created_cell_error)
  moreover have "analyses \<noteq> []" using a(1) by auto
  ultimately show ?thesis using a(3) by (simp add: exportComparisonToCSV_def)
qed

lemma example_numbers:
  "Number_toString example_frac_str 32 = ''32''"
  "Number_toString example_frac_str 5 = ''5''"
  "Number_toString example_frac_str 35 = ''35''"
  "Number_toString example_frac_str 1000 = ''1000''"
  "Number_toString example_frac_str 0 = ''0''"
  by (simp_all add: Number_toString_def show_nat.simps digit_char_def)

text \<open>
  Claim C10, as stated, says of every list of analyses that the export emits one row for
  each of them. Two inputs show what the code does instead. An analysis whose
  \<open>created_at\<close> is the text \<open>not a date\<close>: \<^verbatim>\<open>new Date(...).toISOString()\<close>
  throws a RangeError inside the callback of \<^verbatim>\<open>analyses.map\<close>, so the export
  of the one-element list ends with that error and no file. An analysis whose id holds a
  line feed: the cell is wrapped in double quotes as it is, so the text of the file has
  three lines, the header and two more, for one analysis.
\<close>

theorem exportComparisonToCSV_not_one_row:
  "exportComparisonToCSV example_frac_str example_toISOString ''2026-02-04T08:00:00.000Z''
      [bad_date_example] = Inl RangeError
   \<and> exportComparisonToCSV example_frac_str example_toISOString ''2026-02-04T08:00:00.000Z''
      [two_line_id_example]
     = Inr (Some \<lparr>content =
                    ''Analysis ID,Type,AEP (GWh),Uncertainty (%),Capacity Factor (%),Iterations,Status,Created At''
                    @ CHR 0x0A # ''\"el''
                    @ CHR 0x0A # ''2\",\"electrical_losses\",\"0\",\"0\",\"0\",\"0\",\"completed\",\"\"'',
                  dl_filename = ''analysis_comparison_2026-02-04.csv'',
                  mimeType = ''text/csv''\<rparr>)"
proof (rule conjI)
  show "exportComparisonToCSV example_frac_str example_toISOString ''2026-02-04T08:00:00.000Z''
      [bad_date_example] = Inl RangeError"
    by (simp add: exportComparisonToCSV_def comparison_row_def created_cell_def
        bad_date_example_def aep_example_def example_toISOString_def)
next
  have c: "created_cell example_toISOString two_line_id_example = Inr []"
    by (simp add: created_cell_def two_line_id_example_def losses_example_def)
  have r: "comparison_row example_frac_str example_toISOString two_line_id_example
      = Inr [''el'' @ [CHR 0x0A] @ ''2'', ''electrical_losses'', ''0'', ''0'', ''0'', ''0'',
             ''completed'', []]"
    unfolding comparison_row_def c
    by (simp add: two_line_id_example_def losses_example_def empty_result_def status_name_def
        or_zero_def example_numbers)
  show "exportComparisonToCSV example_frac_str example_toISOString ''2026-02-04T08:00:00.000Z''
      [two_line_id_example]
     = Inr (Some \<lparr>content =
                    ''Analysis ID,Type,AEP (GWh),Uncertainty (%),Capacity Factor (%),Iterations,Status,Created At''
                    @ CHR 0x0A # ''\"el''
                    @ CHR 0x0A # ''2\",\"electrical_losses\",\"0\",\"0\",\"0\",\"0\",\"completed\",\"\"'',
                  dl_filename = ''analysis_comparison_2026-02-04.csv'',
                  mimeType = ''text/csv''\<rparr>)"
    by (simp add: exportComparisonToCSV_def r csv_content_def csv_line_def quote_cell_def
        comparison_headers_def)
qed

text \<open>
  Claim C10, amended. For an empty list \<open>exportComparisonToCSV\<close> returns without
  producing a file. For a non-empty list in which every creation date that is present
  converts, it produces a file; when some creation date that is present does not convert,
  it throws a RangeError and produces no file. The text of a file it produces is the
  header line followed, for each analysis in input order, by a line feed and the eight
  cells of that analysis, each wrapped in double quotes and the eight joined by commas;
  among the cells an absent \<open>aep_gwh\<close>, \<open>uncertainty_pct\<close>,
  \<open>capacity_factor\<close> or \<open>iterations\<close> is written as the string \<open>0\<close>.
  When no cell holds a line feed, the text has as many line feeds as there are analyses:
  one line for each, after the header. The export cannot tell an absent value from a
  true zero: replacing each absent value by zero, as \<open>zero_fill\<close> does while it
  keeps the values that are present, gives the same outcome.
\<close>

theorem exportComparisonToCSV_rows:
  "exportComparisonToCSV frac_str toISOString now_iso [] = Inr None
   \<and> (exportComparisonToCSV frac_str toISOString now_iso analyses = Inr (Some dl) \<longrightarrow>
        (\<exists>rows.
           dl = \<lparr>content =
                    ''Analysis ID,Type,AEP (GWh),Uncertainty (%),Capacity Factor (%),Iterations,Status,Created At''
                    @ concat (map (\<lambda>row. CHR 0x0A #
                         tl (concat (map (\<lambda>cell. CHR '','' # CHR 0x22 # cell @ [CHR 0x22]) row)))
                       rows),
                  dl_filename = ''analysis_comparison_''
                                  @ takeWhile (\<lambda>c. c \<noteq> CHR ''T'') now_iso @ ''.csv'',
                  mimeType = ''text/csv''\<rparr>
           \<and> length rows = length analyses
           \<and> (\<forall>i < length analyses.
                 \<exists>c. created_cell toISOString (analyses ! i) = Inr c
                      \<and> rows ! i = expected_row frac_str (analyses ! i) c)
           \<and> ((\<forall>row \<in> set rows. \<forall>cell \<in> set row. CHR 0x0A \<notin> set cell) \<longrightarrow>
                length (filter (\<lambda>c. c = CHR 0x0A) (content dl)) = length analyses)))
   \<and> (analyses \<noteq> [] \<and> (\<forall>a \<in> set analyses. \<exists>c. created_cell toISOString a = Inr c) \<longrightarrow>
        (\<exists>dl. exportComparisonToCSV frac_str toISOString now_iso analyses = Inr (Some dl)))
   \<and> ((\<exists>a \<in> set analyses. created_cell toISOString a = Inl RangeError) \<longrightarrow>
        exportComparisonToCSV frac_str toISOString now_iso analyses = Inl RangeError)
   \<and> exportComparisonToCSV frac_str toISOString now_iso (map zero_fill analyses)
       = exportComparisonToCSV frac_str toISOString now_iso analyses
   \<and> aep_gwh (result (zero_fill a))
       = Some (case aep_gwh (result a) of None \<Rightarrow> 0 | Some v \<Rightarrow> v)
   \<and> uncertainty_pct (result (zero_fill a))
       = Some (case uncertainty_pct (result a) of None \<Rightarrow> 0 | Some v \<Rightarrow> v)
   \<and> capacity_factor (result (zero_fill a))
       = Some (case capacity_factor (result a) of None \<Rightarrow> 0 | Some v \<Rightarrow> v)
   \<and> iterations (result (zero_fill a))
       = Some (case iterations (result a) of None \<Rightarrow> 0 | Some v \<Rightarrow> v)"
proof -
  let ?f = "comparison_row frac_str toISOString"
  let ?text = "\<lambda>rows. ''Analysis ID,Type,AEP (GWh),Uncertainty (%),Capacity Factor (%),Iterations,Status,Created At''
                    @ concat (map (\<lambda>row. CHR 0x0A #
                         tl (concat (map (\<lambda>cell. CHR '','' # CHR 0x22 # cell @ [CHR 0x22]) row)))
                       rows)"
  have a: "exportComparisonToCSV frac_str toISOString now_iso [] = Inr None"
    by (simp add: exportComparisonToCSV_def)
  have b: "exportComparisonToCSV frac_str toISOString now_iso analyses = Inr (Some dl) \<longrightarrow>
        (\<exists>rows.
           dl = \<lparr>content = ?text rows,
                  dl_filename = ''analysis_comparison_''
                                  @ takeWhile (\<lambda>c. c \<noteq> CHR ''T'') now_iso @ ''.csv'',
                  mimeType = ''text/csv''\<rparr>
           \<and> length rows = length analyses
           \<and> (\<forall>i < length analyses.
                 \<exists>c. created_cell toISOString (analyses ! i) = Inr c
                      \<and> rows ! i = expected_row frac_str (analyses ! i) c)
           \<and> ((\<forall>row \<in> set rows. \<forall>cell \<in> set row. CHR 0x0A \<notin> set cell) \<longrightarrow>
                length (filter (\<lambda>c. c = CHR 0x0A) (content dl)) = length analyses))"
  proof
    assume e: "exportComparisonToCSV frac_str toISOString now_iso analyses = Inr (Some dl)"
    then obtain rows where rows: "map_rows ?f analyses = Inr rows"
      and fl: "dl = \<lparr>content = csv_content comparison_headers rows,
                      dl_filename = ''analysis_comparison_''
                                      @ takeWhile (\<lambda>c. c \<noteq> CHR ''T'') now_iso @ ''.csv'',
                      mimeType = ''text/csv''\<rparr>"
      by (auto simp: exportComparisonToCSV_def Let_def split: if_splits sum.splits)
    from fl have fl': "dl = \<lparr>content = ?text rows,
                      dl_filename = ''analysis_comparison_''
                                      @ takeWhile (\<lambda>c. c \<noteq> CHR ''T'') now_iso @ ''.csv'',
                      mimeType = ''text/csv''\<rparr>"
      unfolding csv_content_text .
    from map_rows_Inr [OF rows] have len: "length rows = length analyses"
      and each: "\<forall>i < length analyses. ?f (analyses ! i) = Inr (rows ! i)"
      by simp_all
    have cells: "\<forall>i < length analyses.
            \<exists>c. created_cell toISOString (analyses ! i) = Inr c
                 \<and> rows ! i = expected_row frac_str (analyses ! i) c"
      using each comparison_row_Inr by blast
    have lf: "(\<forall>row \<in> set rows. \<forall>cell \<in> set row. CHR 0x0A \<notin> set cell) \<longrightarrow>
                length (filter (\<lambda>c. c = CHR 0x0A) (content dl)) = length analyses"
    proof
      assume "\<forall>row \<in> set rows. \<forall>cell \<in> set row. CHR 0x0A \<notin> set cell"
      from line_feeds_text [OF this] have "length (filter (\<lambda>c. c = CHR 0x0A) (?text rows)) = length rows" .
      moreover have "content dl = ?text rows" by (subst fl') simp
      ultimately show "length (filter (\<lambda>c. c = CHR 0x0A) (content dl)) = length analyses"
        using len by simp
    qed
    from fl' len cells lf show "\<exists>rows.
           dl = \<lparr>content = ?text rows,
                  dl_filename = ''analysis_comparison_''
                                  @ takeWhile (\<lambda>c. c \<noteq> CHR ''T'') now_iso @ ''.csv'',
                  mimeType = ''text/csv''\<rparr>
           \<and> length rows = length analyses
           \<and> (\<forall>i < length analyses.
                 \<exists>c. created_cell toISOString (analyses ! i) = Inr c
                      \<and> rows ! i = expected_row frac_str (analyses ! i) c)
           \<and> ((\<forall>row \<in> set rows. \<forall>cell \<in> set row. CHR 0x0A \<notin> set cell) \<longrightarrow>
                length (filter (\<lambda>c. c = CHR 0x0A) (content dl)) = length analyses)"
      by blast
  qed
  have c: "analyses \<noteq> [] \<and> (\<forall>a \<in> set analyses. \<exists>c. created_cell toISOString a = Inr c) \<longrightarrow>
        (\<exists>dl. exportComparisonToCSV frac_str toISOString now_iso analyses = Inr (Some dl))"
  proof
    assume h: "analyses \<noteq> [] \<and> (\<forall>a \<in> set analyses. \<exists>c. created_cell toISOString a = Inr c)"
    have "\<forall>a \<in> set analyses. \<exists>r. ?f a = Inr r"
      using h comparison_row_expected by blast
    then obtain rows where "map_rows ?f analyses = Inr rows"
      using map_rows_total [of analyses ?f] by blast
    then show "\<exists>dl. exportComparisonToCSV frac_str toISOString now_iso analyses = Inr (Some dl)"
      using h by (simp add: exportComparisonToCSV_def)
  qed
  have d: "(\<exists>a \<in> set analyses. created_cell toISOString a = Inl RangeError) \<longrightarrow>
        exportComparisonToCSV frac_str toISOString now_iso analyses = Inl RangeError"
    using export_bad_date by blast
  have e: "exportComparisonToCSV frac_str toISOString now_iso (map zero_fill analyses)
       = exportComparisonToCSV frac_str toISOString now_iso analyses"
    by (simp add: exportComparisonToCSV_def map_rows_map comparison_row_zero_fill)
  have g: "aep_gwh (result (zero_fill a))
       = Some (case aep_gwh (result a) of None \<Rightarrow> 0 | Some v \<Rightarrow> v)
   \<and> uncertainty_pct (result (zero_fill a))
       = Some (case uncertainty_pct (result a) of None \<Rightarrow> 0 | Some v \<Rightarrow> v)
   \<and> capacity_factor (result (zero_fill a))
       = Some (case capacity_factor (result a) of None \<Rightarrow> 0 | Some v \<Rightarrow> v)
   \<and> iterations (result (zero_fill a))
       = Some (case iterations (result a) of None \<Rightarrow> 0 | Some v \<Rightarrow> v)"
    by (simp add: zero_fill_def or_zero_def)
  show ?thesis
    by (rule conjI [OF a], rule conjI [OF b], rule conjI [OF c], rule conjI [OF d],
        rule conjI [OF e], rule g)
qed

theorem exportComparisonToCSV_rows_witness:
  "exportComparisonToCSV example_frac_str example_toISOString ''2026-02-04T08:00:00.000Z''
      [aep_example, losses_example]
   = Inr (Some \<lparr>content =
                   ''Analysis ID,Type,AEP (GWh),Uncertainty (%),Capacity Factor (%),Iterations,Status,Created At''
                   @ CHR 0x0A # ''\"aep_1\",\"aep_monte_carlo\",\"32\",\"5\",\"35\",\"1000\",\"completed\",\"2026-02-03T12:34:56.000Z\"''
                   @ CHR 0x0A # ''\"el_2\",\"electrical_losses\",\"0\",\"0\",\"0\",\"0\",\"completed\",\"\"'',
                 dl_filename = ''analysis_comparison_2026-02-04.csv'',
                 mimeType = ''text/csv''\<rparr>)
   \<and> length (filter (\<lambda>c. c = CHR 0x0A)
        (''Analysis ID,Type,AEP (GWh),Uncertainty (%),Capacity Factor (%),Iterations,Status,Created At''
         @ CHR 0x0A # ''\"aep_1\",\"aep_monte_carlo\",\"32\",\"5\",\"35\",\"1000\",\"completed\",\"2026-02-03T12:34:56.000Z\"''
         @ CHR 0x0A # ''\"el_2\",\"electrical_losses\",\"0\",\"0\",\"0\",\"0\",\"completed\",\"\"'')) = 2
   \<and> exportComparisonToCSV example_frac_str example_toISOString ''2026-02-04T08:00:00.000Z''
        [aep_example, bad_date_example] = Inl RangeError"
proof -
  let ?as = "[aep_example, losses_example]"
  let ?bs = "[aep_example, bad_date_example]"
  let ?now = "''2026-02-04T08:00:00.000Z''"
  let ?text = "''Analysis ID,Type,AEP (GWh),Uncertainty (%),Capacity Factor (%),Iterations,Status,Created At''
         @ CHR 0x0A # ''\"aep_1\",\"aep_monte_carlo\",\"32\",\"5\",\"35\",\"1000\",\"completed\",\"2026-02-03T12:34:56.000Z\"''
         @ CHR 0x0A # ''\"el_2\",\"electrical_losses\",\"0\",\"0\",\"0\",\"0\",\"completed\",\"\"''"
  note th = exportComparisonToCSV_rows [of example_frac_str example_toISOString ?now ?as]
  have c0: "created_cell example_toISOString aep_example = Inr ''2026-02-03T12:34:56.000Z''"
    by (simp add: created_cell_def example_toISOString_def aep_example_def)
  have c1: "created_cell example_toISOString losses_example = Inr []"
    by (simp add: created_cell_def losses_example_def)
  have c2: "created_cell example_toISOString bad_date_example = Inl RangeError"
    by (simp add: created_cell_def bad_date_example_def aep_example_def example_toISOString_def)
  have hyp: "?as \<noteq> [] \<and> (\<forall>a \<in> set ?as. \<exists>c. created_cell example_toISOString a = Inr c)"
    using c0 c1 by simp
  from th hyp obtain dl where
    f: "exportComparisonToCSV example_frac_str example_toISOString ?now ?as = Inr (Some dl)"
    by blast
  from th [of dl] f obtain rows where r:
    "dl = \<lparr>content =
              ''Analysis ID,Type,AEP (GWh),Uncertainty (%),Capacity Factor (%),Iterations,Status,Created At''
              @ concat (map (\<lambda>row. CHR 0x0A #
                   tl (concat (map (\<lambda>cell. CHR '','' # CHR 0x22 # cell @ [CHR 0x22]) row)))
                 rows),
              dl_filename = ''analysis_comparison_''
                 @ takeWhile (\<lambda>c. c \<noteq> CHR ''T'') ?now @ ''.csv'',
              mimeType = ''text/csv''\<rparr>"
    "length rows = length ?as"
    "\<forall>i < length ?as. \<exists>c. created_cell example_toISOString (?as ! i) = Inr c
         \<and> rows ! i = expected_row example_frac_str (?as ! i) c"
    "(\<forall>row \<in> set rows. \<forall>cell \<in> set row. CHR 0x0A \<notin> set cell) \<longrightarrow>
        length (filter (\<lambda>c. c = CHR 0x0A) (content dl)) = length ?as"
    by blast
  have e0: "rows ! 0 = expected_row example_frac_str aep_example ''2026-02-03T12:34:56.000Z''"
    using r(3) [rule_format, of 0] c0 by auto
  have e1: "rows ! 1 = expected_row example_frac_str losses_example []"
    using r(3) [rule_format, of 1] c1 by auto
  from e0 have r0: "rows ! 0 = [''aep_1'', ''aep_monte_carlo'', ''32'', ''5'', ''35'', ''1000'',
       ''completed'', ''2026-02-03T12:34:56.000Z'']"
    by (simp add: expected_row_def aep_example_def empty_result_def status_name_def
        example_numbers)
  from e1 have r1: "rows ! 1 = [''el_2'', ''electrical_losses'', ''0'', ''0'', ''0'', ''0'',
       ''completed'', []]"
    by (simp add: expected_row_def losses_example_def empty_result_def status_name_def)
  have "length rows = 2" using r(2) by simp
  then have "rows = [rows ! 0, rows ! 1]"
    by (auto simp: length_Suc_conv numeral_2_eq_2)
  with r0 r1 have rows: "rows = [[''aep_1'', ''aep_monte_carlo'', ''32'', ''5'', ''35'', ''1000'',
                     ''completed'', ''2026-02-03T12:34:56.000Z''],
                    [''el_2'', ''electrical_losses'', ''0'', ''0'', ''0'', ''0'', ''completed'', []]]"
    by simp
  have dl: "dl = \<lparr>content = ?text, dl_filename = ''analysis_comparison_2026-02-04.csv'',
                   mimeType = ''text/csv''\<rparr>"
    using r(1) unfolding rows by simp
  have p1: "exportComparisonToCSV example_frac_str example_toISOString ?now ?as
     = Inr (Some \<lparr>content = ?text, dl_filename = ''analysis_comparison_2026-02-04.csv'',
                   mimeType = ''text/csv''\<rparr>)"
    using f dl by simp
  have "\<forall>row \<in> set rows. \<forall>cell \<in> set row. CHR 0x0A \<notin> set cell"
    unfolding rows by simp
  with r(4) have "length (filter (\<lambda>c. c = CHR 0x0A) (content dl)) = length ?as" by blast
  then have p2: "length (filter (\<lambda>c. c = CHR 0x0A) ?text) = 2"
    unfolding dl by simp
  have "\<exists>a \<in> set ?bs. created_cell example_toISOString a = Inl RangeError"
    using c2 by simp
  with exportComparisonToCSV_rows [of example_frac_str example_toISOString ?now ?bs]
  have p3: "exportComparisonToCSV example_frac_str example_toISOString ?now ?bs = Inl RangeError"
    by blast
  show ?thesis
    by (rule conjI [OF p1], rule conjI [OF p2], rule p3)
qed

section \<open>Type-specific result fields are optional\<close>

lemma fst_push_metric:
  "map fst (push_metric toFixed l v d u ms) = map fst ms @ (if v = None then [] else [l])"
  by (simp add: push_metric_def split: option.splits)

lemma labels_of_present:
  "map fst (filter (\<lambda>(l, v). v \<noteq> None) xs)
     = concat (map (\<lambda>(l, v). if v = None then [] else [l]) xs)"
  by (induction xs) auto

lemma dynamic_metrics_labels: "map fst (dynamic_metrics toFixed r) = present_labels r"
  unfolding present_labels_def labels_of_present
  by (simp add: dynamic_metrics_def fst_push_metric)

lemma ResultPanel_webapp_Some:
  "ResultPanel_webapp toFixed toLocaleString frac_str (Some a) False =
     (if has_aep_fields (result a)
      then Inr (Results
        \<lparr>view_title = ''AEP Results'',
         view_type = analysis_type (result a),
         view_status = status_name (resp_status a),
         view_metrics =
           [(''Net AEP'', toFixed 2 (the (aep_gwh (result a))) @ '' GWh''),
            (''Uncertainty'', toFixed 2 (the (uncertainty_pct (result a))) @ '' %''),
            (''Capacity Factor'', toFixed 1 (the (capacity_factor (result a))) @ '' %''),
            (''Plant Capacity'', toFixed 1 (the (plant_capacity_mw (result a))) @ '' MW'')],
         view_notes = (case result_notes (result a) of
                         None \<Rightarrow> ''Run completed successfully.'' | Some n \<Rightarrow> n),
         view_iterations =
           Some (''Iterations: '' @ (case iterations (result a) of None \<Rightarrow> []
                                     | Some n \<Rightarrow> Number_toString frac_str n)),
         view_completed = ''Completed: '' @ completedLabel toLocaleString a,
         view_raw_columns = shown_raw_columns (result a)\<rparr>)
      else Inl TypeError)"
  by (auto simp: ResultPanel_webapp_def has_aep_fields_def call_toFixed_def Let_def
      split: option.splits)

text \<open>
  The two panels at the result of an electrical-losses run, which carries
  \<open>total_loss_pct\<close> and no \<open>aep_gwh\<close>: the panel that tests each field shows
  the one metric that is present, and the AEP-only panel, which reads the AEP fields
  without a test, would throw a TypeError if it were given this result.
\<close>

lemma panels_on_losses_example:
  "aep_gwh (result losses_example) = None
   \<and> total_loss_pct (result losses_example) = Some 2
   \<and> ResultPanel_webapp example_toFixed example_toLocaleString example_frac_str
        (Some losses_example) False = Inl TypeError
   \<and> ResultPanel_dynamic example_toFixed example_toLocaleString example_frac_str
        (Some losses_example) False =
       Inr (Results
         \<lparr>view_title = ''Electrical Losses Results'',
          view_type = ''electrical_losses'',
          view_status = ''completed'',
          view_metrics = [(''Electrical Losses'', ''2.00 %'')],
          view_notes = ''Run completed successfully.'',
          view_iterations = None,
          view_completed = ''Completed: Not available'',
          view_raw_columns = []\<rparr>)"
proof -
  have t: "getTitle r = ''Electrical Losses Results''"
    if "analysis_type r = ''electrical_losses''" for r
    using that
    by (simp add: getTitle_def toLowerCase_def lower_char_def upper_letters_def lower_letters_def)
  have f: "example_toFixed 2 2 = ''2.00''"
    by (simp add: example_toFixed_def show_nat.simps digit_char_def numeral_2_eq_2)
  show ?thesis
    by (simp add: ResultPanel_dynamic_def ResultPanel_webapp_def call_toFixed_def
        losses_example_def empty_result_def t f
        dynamic_metrics_def push_metric_def status_name_def completedLabel_def
        shown_raw_columns_def)
qed

text \<open>
  Claim C2. In the result bag each type-specific field is present only for its own
  analysis type: \<open>aep_gwh\<close> and \<open>uncertainty_pct\<close> for AEP, \<open>total_loss_pct\<close>
  for electrical losses, \<open>wake_loss_pct\<close> for wake losses, \<open>ideal_energy_gwh\<close> for
  turbine ideal energy, \<open>gap_pct\<close> for EYA gap. The result panel written for this bag
  (the one with the export menu) treats every such field as optional: it never fails,
  and it shows a metric exactly for the fields that are present. That a consumer of the
  bag has to do so is seen on the AEP-only panel of \<^verbatim>\<open>webapp/.../ResultPanel.tsx\<close>,
  which is written for the AEP result whose fields are required and reads
  \<open>aep_gwh\<close>, \<open>uncertainty_pct\<close>, \<open>capacity_factor\<close> and
  \<open>plant_capacity_mw\<close> without a test: it renders exactly when all four are present,
  which among the bags holds only for an AEP bag that carries the capacity figures, and on
  any other result it would throw a TypeError.
\<close>

theorem result_fields_optional:
  "(aep_gwh (result_bag T common x u) \<noteq> None \<longleftrightarrow> T = aep_monte_carlo)
   \<and> (uncertainty_pct (result_bag T common x u) \<noteq> None \<longleftrightarrow> T = aep_monte_carlo)
   \<and> (total_loss_pct (result_bag T common x u) \<noteq> None \<longleftrightarrow> T = electrical_losses)
   \<and> (wake_loss_pct (result_bag T common x u) \<noteq> None \<longleftrightarrow> T = wake_losses)
   \<and> (ideal_energy_gwh (result_bag T common x u) \<noteq> None \<longleftrightarrow> T = turbine_ideal_energy)
   \<and> (gap_pct (result_bag T common x u) \<noteq> None \<longleftrightarrow> T = eya_gap_analysis)
   \<and> (has_aep_fields (result_bag T common x u)
        \<longleftrightarrow> T = aep_monte_carlo \<and> capacity_factor common \<noteq> None
            \<and> plant_capacity_mw common \<noteq> None)
   \<and> (\<exists>p. ResultPanel_dynamic toFixed toLocaleString frac_str analysis isLoading = Inr p)
   \<and> (\<exists>view. ResultPanel_dynamic toFixed toLocaleString frac_str (Some a) False = Inr (Results view)
          \<and> map fst (view_metrics view) = present_labels (result a))
   \<and> ((\<exists>p. ResultPanel_webapp toFixed toLocaleString frac_str (Some a) False = Inr p)
        \<longleftrightarrow> has_aep_fields (result a))
   \<and> (\<not> has_aep_fields (result a) \<longrightarrow>
        ResultPanel_webapp toFixed toLocaleString frac_str (Some a) False = Inl TypeError)"
proof -
  have bag: "(aep_gwh (result_bag T common x u) \<noteq> None \<longleftrightarrow> T = aep_monte_carlo)
   \<and> (uncertainty_pct (result_bag T common x u) \<noteq> None \<longleftrightarrow> T = aep_monte_carlo)
   \<and> (total_loss_pct (result_bag T common x u) \<noteq> None \<longleftrightarrow> T = electrical_losses)
   \<and> (wake_loss_pct (result_bag T common x u) \<noteq> None \<longleftrightarrow> T = wake_losses)
   \<and> (ideal_energy_gwh (result_bag T common x u) \<noteq> None \<longleftrightarrow> T = turbine_ideal_energy)
   \<and> (gap_pct (result_bag T common x u) \<noteq> None \<longleftrightarrow> T = eya_gap_analysis)"
    by (simp add: result_bag_def)
  have aep: "has_aep_fields (result_bag T common x u)
        \<longleftrightarrow> T = aep_monte_carlo \<and> capacity_factor common \<noteq> None
            \<and> plant_capacity_mw common \<noteq> None"
    by (simp add: result_bag_def has_aep_fields_def)
  have total: "\<exists>p. ResultPanel_dynamic toFixed toLocaleString frac_str analysis isLoading = Inr p"
    by (simp add: ResultPanel_dynamic_def Let_def split: option.splits)
  have shown: "\<exists>view. ResultPanel_dynamic toFixed toLocaleString frac_str (Some a) False
                        = Inr (Results view)
          \<and> map fst (view_metrics view) = present_labels (result a)"
    by (simp add: ResultPanel_dynamic_def Let_def dynamic_metrics_labels)
  have old: "(\<exists>p. ResultPanel_webapp toFixed toLocaleString frac_str (Some a) False = Inr p)
        \<longleftrightarrow> has_aep_fields (result a)"
    by (simp add: ResultPanel_webapp_Some)
  have old': "\<not> has_aep_fields (result a) \<longrightarrow>
        ResultPanel_webapp toFixed toLocaleString frac_str (Some a) False = Inl TypeError"
    by (simp add: ResultPanel_webapp_Some)
  from bag aep total shown old old' show ?thesis by blast
qed

theorem result_fields_optional_witness:
  "\<not> has_aep_fields (result losses_example)
   \<and> ResultPanel_webapp example_toFixed example_toLocaleString example_frac_str
        (Some losses_example) False = Inl TypeError
   \<and> has_aep_fields (result aep_example)
   \<and> present_labels (result aep_example)
       = [''Net AEP'', ''Uncertainty'', ''Capacity Factor'', ''Plant Capacity'']
   \<and> present_labels (result losses_example) = [''Electrical Losses'']
   \<and> result losses_example = result_bag electrical_losses empty_result 2 0
   \<and> (\<exists>p. ResultPanel_webapp example_toFixed example_toLocaleString example_frac_str
             (Some aep_example) False = Inr p)
   \<and> (\<exists>view. ResultPanel_dynamic example_toFixed example_toLocaleString example_frac_str
                (Some losses_example) False = Inr (Results view)
              \<and> map fst (view_metrics view) = [''Electrical Losses''])"
proof -
  have a: "has_aep_fields (result aep_example)"
    by (simp add: has_aep_fields_def aep_example_def empty_result_def)
  have l: "\<not> has_aep_fields (result losses_example)"
    by (simp add: has_aep_fields_def losses_example_def empty_result_def)
  have pa: "present_labels (result aep_example)
       = [''Net AEP'', ''Uncertainty'', ''Capacity Factor'', ''Plant Capacity'']"
    by (simp add: present_labels_def aep_example_def empty_result_def)
  have pl: "present_labels (result losses_example) = [''Electrical Losses'']"
    by (simp add: present_labels_def losses_example_def empty_result_def)
  have b: "result losses_example = result_bag electrical_losses empty_result 2 0"
    by (simp add: losses_example_def result_bag_def empty_result_def type_name_def)
  note t1 = result_fields_optional
         [of aep_monte_carlo empty_result 32 5 example_toFixed example_toLocaleString
             example_frac_str "Some aep_example" False aep_example]
  note t2 = result_fields_optional
         [of electrical_losses empty_result 2 0 example_toFixed example_toLocaleString
             example_frac_str "Some losses_example" False losses_example]
  have w1: "\<exists>p. ResultPanel_webapp example_toFixed example_toLocaleString example_frac_str
             (Some aep_example) False = Inr p"
    using t1 a by blast
  have w2: "ResultPanel_webapp example_toFixed example_toLocaleString example_frac_str
        (Some losses_example) False = Inl TypeError"
    using t2 l by blast
  have w3: "\<exists>view. ResultPanel_dynamic example_toFixed example_toLocaleString example_frac_str
                (Some losses_example) False = Inr (Results view)
              \<and> map fst (view_metrics view) = [''Electrical Losses'']"
    using t2 pl by simp
  from a l pa pl b w1 w2 w3 show ?thesis by blast
qed

section \<open>Column mapping is case-insensitive\<close>

lemma distinct_upper_letters: "distinct upper_letters"
  by (simp add: upper_letters_def)

lemma length_letters: "length upper_letters = length lower_letters"
  by (simp add: upper_letters_def lower_letters_def)

lemma lower_not_upper: "l \<in> set lower_letters \<Longrightarrow> l \<notin> set upper_letters"
  by (auto simp: upper_letters_def lower_letters_def)

lemma lower_char_pair:
  assumes "(u, l) \<in> set (zip upper_letters lower_letters)"
  shows "lower_char u = l" and "lower_char l = l"
proof -
  have "distinct (map fst (zip upper_letters lower_letters))"
    using distinct_upper_letters length_letters by simp
  then have "map_of (zip upper_letters lower_letters) u = Some l"
    using assms by (rule map_of_is_SomeI)
  then show "lower_char u = l" by (simp add: lower_char_def)
  have "l \<in> set lower_letters" using assms by (rule set_zip_rightD)
  then have "l \<notin> set upper_letters" by (rule lower_not_upper)
  then have "l \<notin> fst ` set (zip upper_letters lower_letters)"
    by (metis (no_types, lifting) imageE prod.collapse set_zip_leftD)
  then have "map_of (zip upper_letters lower_letters) l = None"
    by (simp add: map_of_eq_None_iff)
  then show "lower_char l = l" by (simp add: lower_char_def)
qed

lemma case_variant_lower: "case_variant c d \<Longrightarrow> lower_char c = lower_char d"
  unfolding case_variant_def using lower_char_pair by metis

lemma case_variant_toLowerCase:
  "list_all2 case_variant h h' \<Longrightarrow> toLowerCase h = toLowerCase h'"
  unfolding toLowerCase_def
  by (induction rule: list_all2_induct) (simp_all add: case_variant_lower)

lemma canonical_of_case_variant:
  assumes "list_all2 case_variant h h'"
  shows "canonical_of A S h' = canonical_of A S h"
proof -
  have l: "toLowerCase h' = toLowerCase h"
    using assms by (simp add: case_variant_toLowerCase)
  have "lookup_alias A h' = lookup_alias A h"
    by (simp add: lookup_alias_def l)
  moreover have "match_canonical S h' = match_canonical S h"
    by (simp add: match_canonical_def l)
  ultimately show ?thesis by (simp add: canonical_of_def split: option.splits)
qed

lemma snd_column_mapping:
  "map snd (column_mapping A S H) = List.map_filter (canonical_of A S) H"
  by (induction H) (auto simp: column_mapping_def split: option.splits)

lemma case_permutation_targets:
  "case_permutation H H' \<Longrightarrow> map (canonical_of A S) H' = map (canonical_of A S) H"
  unfolding case_permutation_def
  by (induction rule: list_all2_induct) (simp_all add: canonical_of_case_variant)

lemma map_filter_cong_map: "map f xs = map f ys \<Longrightarrow> List.map_filter f xs = List.map_filter f ys"
proof (induction xs arbitrary: ys)
  case Nil
  then show ?case by simp
next
  case (Cons x xs)
  then obtain y ys' where ys: "ys = y # ys'" by (cases ys) auto
  with Cons show ?case by (auto split: option.splits)
qed

lemma case_permutation_extra:
  "case_permutation H H' \<Longrightarrow>
   case_permutation (extra_columns A S H) (extra_columns A S H')"
  unfolding case_permutation_def extra_columns_def
  by (induction rule: list_all2_induct) (auto simp: canonical_of_case_variant)

text \<open>
  Claim C3. For every header list \<open>H\<close>, alias table \<open>A\<close> and schema \<open>S\<close>, changing
  the letter case of the entries of \<open>H\<close> does not change the mapping: each header maps
  to the same canonical field as before, so the mapped fields, the missing required
  fields and the outcome of the mapper are the same, and the extra columns are the same
  headers up to case.
\<close>

theorem column_mapping_case_invariant:
  assumes "case_permutation H H'"
  shows "map (canonical_of A S) H' = map (canonical_of A S) H
         \<and> map snd (column_mapping A S H') = map snd (column_mapping A S H)
         \<and> missing_required A S H' = missing_required A S H
         \<and> map_sum id (map snd) (Column_Mapper A S H') = map_sum id (map snd) (Column_Mapper A S H)
         \<and> case_permutation (extra_columns A S H) (extra_columns A S H')"
proof -
  have t: "map (canonical_of A S) H' = map (canonical_of A S) H"
    using assms by (rule case_permutation_targets)
  then have m: "map snd (column_mapping A S H') = map snd (column_mapping A S H)"
    unfolding snd_column_mapping by (rule map_filter_cong_map)
  then have r: "missing_required A S H' = missing_required A S H"
    by (simp add: missing_required_def)
  have c: "map_sum id (map snd) (Column_Mapper A S H') = map_sum id (map snd) (Column_Mapper A S H)"
    using m r by (simp add: Column_Mapper_def split: list.splits)
  from t m r c case_permutation_extra [OF assms] show ?thesis by blast
qed

theorem column_mapping_case_invariant_witness:
  "case_permutation [''Date_time'', ''P_avg'', ''Ws_avg''] [''DATE_TIME'', ''p_AVG'', ''ws_avg'']
   \<and> map (canonical_of la_haute_borne_aliases scada_schema) [''DATE_TIME'', ''p_AVG'', ''ws_avg'']
       = [Some ''time'', Some ''WTUR_W'', Some ''WMET_HorWdSpd'']
   \<and> map_sum id (map snd)
        (Column_Mapper la_haute_borne_aliases scada_schema [''DATE_TIME'', ''p_AVG'', ''ws_avg''])
       = Inr [''time'', ''WTUR_W'', ''WMET_HorWdSpd'']"
proof -
  have p: "case_permutation [''Date_time'', ''P_avg'', ''Ws_avg''] [''DATE_TIME'', ''p_AVG'', ''ws_avg'']"
    by (simp add: case_permutation_def case_variant_def upper_letters_def lower_letters_def)
  have l: "toLowerCase ''Date_time'' = ''date_time''" "toLowerCase ''P_avg'' = ''p_avg''"
      "toLowerCase ''Ws_avg'' = ''ws_avg''"
    by (simp_all add: toLowerCase_def lower_char_def upper_letters_def lower_letters_def)
  have t: "map (canonical_of la_haute_borne_aliases scada_schema) [''Date_time'', ''P_avg'', ''Ws_avg'']
       = [Some ''time'', Some ''WTUR_W'', Some ''WMET_HorWdSpd'']"
    by (simp add: canonical_of_def lookup_alias_def la_haute_borne_aliases_def l)
  have c: "Column_Mapper la_haute_borne_aliases scada_schema [''Date_time'', ''P_avg'', ''Ws_avg'']
       = Inr [(''Date_time'', ''time''), (''P_avg'', ''WTUR_W''), (''Ws_avg'', ''WMET_HorWdSpd'')]"
    by (simp add: Column_Mapper_def missing_required_def column_mapping_def
        canonical_of_def lookup_alias_def la_haute_borne_aliases_def l
        scada_schema_def)
  from column_mapping_case_invariant [OF p, of la_haute_borne_aliases scada_schema] t c p
  show ?thesis by simp
qed

section \<open>Upload of a file with the scenario headers\<close>

lemma scenario_targets:
  "map (canonical_of scenario_aliases S) [''Date_time'', ''P_avg'', ''Ws_avg'']
     = [Some ''time'', Some ''power'', Some ''wind_speed'']"
proof -
  have l: "toLowerCase ''Date_time'' = ''date_time''" "toLowerCase ''P_avg'' = ''p_avg''"
      "toLowerCase ''Ws_avg'' = ''ws_avg''"
    by (simp_all add: toLowerCase_def lower_char_def upper_letters_def lower_letters_def)
  show ?thesis
    by (simp add: canonical_of_def lookup_alias_def scenario_aliases_def l)
qed

lemma scenario_mapping:
  "column_mapping scenario_aliases S [''Date_time'', ''P_avg'', ''Ws_avg'']
     = [(''Date_time'', ''time''), (''P_avg'', ''power''), (''Ws_avg'', ''wind_speed'')]"
  using scenario_targets [of S] by (simp add: column_mapping_def)

lemma scenario_renamed:
  "renamed_columns scenario_aliases S [''Date_time'', ''P_avg'', ''Ws_avg'']
     = [''time'', ''power'', ''wind_speed'']"
  using scenario_targets [of S] by (simp add: renamed_columns_def)

lemma parse_scenario_A:
  "parse_csv scenario_A_csv =
     Some ([''Date_time'', ''P_avg'', ''Ws_avg''],
           [[''2014-01-01T00:00:00'', ''120.5'', ''5.3''],
            [''2014-01-01T00:10:00'', ''133.0'', ''5.9'']])"
  by (simp add: parse_csv_def scenario_A_csv_def)

lemma split_on_sep:
  "sep \<notin> set h \<Longrightarrow> split_on sep (h @ sep # rest) = h # split_on sep rest"
  by (induction h) auto

lemma split_on_none: "sep \<notin> set h \<Longrightarrow> split_on sep h = [h]"
  by (induction h) auto

lemma split_on_lines:
  "sep \<notin> set h \<Longrightarrow> \<forall>l \<in> set ls. sep \<notin> set l \<Longrightarrow>
   split_on sep (h @ concat (map (\<lambda>l. sep # l) ls)) = h # ls"
proof (induction ls arbitrary: h)
  case Nil
  then show ?case by (simp add: split_on_none)
next
  case (Cons l ls)
  have "split_on sep (h @ sep # (l @ concat (map (\<lambda>l. sep # l) ls)))
          = h # split_on sep (l @ concat (map (\<lambda>l. sep # l) ls))"
    using Cons.prems(1) by (rule split_on_sep)
  moreover have "split_on sep (l @ concat (map (\<lambda>l. sep # l) ls)) = l # ls"
    using Cons.prems(2) by (intro Cons.IH) simp_all
  ultimately show ?case by simp
qed

lemma upload_parsed:
  assumes "length bytes \<le> size_ceiling"
    and "set (required_fields S) \<subseteq> {''time'', ''power'', ''wind_speed''}"
    and "parse_csv bytes = Some ([''Date_time'', ''P_avg'', ''Ws_avg''], data_lines)"
  shows "rows_and_columns (upload_plant_data scenario_aliases S new_id now reg bytes fname)
           = Inr (length data_lines, [''time'', ''power'', ''wind_speed''])"
proof -
  have "missing_required scenario_aliases S [''Date_time'', ''P_avg'', ''Ws_avg''] = []"
    using assms(2) by (auto simp: missing_required_def scenario_mapping filter_empty_conv)
  then have m: "Column_Mapper scenario_aliases S [''Date_time'', ''P_avg'', ''Ws_avg'']
     = Inr [(''Date_time'', ''time''), (''P_avg'', ''power''), (''Ws_avg'', ''wind_speed'')]"
    by (simp add: Column_Mapper_def scenario_mapping)
  show ?thesis
    using assms(1,3)
    by (simp add: rows_and_columns_def upload_plant_data_def put_def m scenario_renamed Let_def)
qed

text \<open>
  Claim C1. An upload whose headers are \<open>Date_time\<close>, \<open>P_avg\<close>, \<open>Ws_avg\<close> maps
  them to the canonical names \<open>time\<close>, \<open>power\<close>, \<open>wind_speed\<close>, and the answer's
  \<open>row_count\<close> is the number of data lines and its \<open>columns\<close> are the three
  canonical names. This is stated for a file that parses to these headers, and for a
  text that consists of the header line and further lines after line feeds, where the
  data lines are the non-empty ones. The file is one that the upload does not reject for
  another reason of the specification: it is within the size ceiling, and the schema
  requires no field that the file lacks.
\<close>

theorem upload_scenario_A:
  assumes "length bytes \<le> size_ceiling"
    and "set (required_fields S) \<subseteq> {''time'', ''power'', ''wind_speed''}"
  shows "column_mapping scenario_aliases S [''Date_time'', ''P_avg'', ''Ws_avg'']
           = [(''Date_time'', ''time''), (''P_avg'', ''power''), (''Ws_avg'', ''wind_speed'')]
         \<and> (parse_csv bytes = Some ([''Date_time'', ''P_avg'', ''Ws_avg''], data_lines) \<longrightarrow>
              rows_and_columns
                (upload_plant_data scenario_aliases S new_id now reg bytes fname)
              = Inr (length data_lines, [''time'', ''power'', ''wind_speed'']))
         \<and> (bytes = ''Date_time,P_avg,Ws_avg'' @ concat (map (\<lambda>l. CHR 0x0A # l) ls)
              \<and> (\<forall>l \<in> set ls. CHR 0x0A \<notin> set l) \<longrightarrow>
              rows_and_columns
                (upload_plant_data scenario_aliases S new_id now reg bytes fname)
              = Inr (length (filter (\<lambda>l. l \<noteq> []) ls), [''time'', ''power'', ''wind_speed'']))"
proof (intro conjI impI)
  show "column_mapping scenario_aliases S [''Date_time'', ''P_avg'', ''Ws_avg'']
           = [(''Date_time'', ''time''), (''P_avg'', ''power''), (''Ws_avg'', ''wind_speed'')]"
    by (rule scenario_mapping)
next
  assume "parse_csv bytes = Some ([''Date_time'', ''P_avg'', ''Ws_avg''], data_lines)"
  with assms show "rows_and_columns
                (upload_plant_data scenario_aliases S new_id now reg bytes fname)
              = Inr (length data_lines, [''time'', ''power'', ''wind_speed''])"
    by (rule upload_parsed)
next
  assume t: "bytes = ''Date_time,P_avg,Ws_avg'' @ concat (map (\<lambda>l. CHR 0x0A # l) ls)
              \<and> (\<forall>l \<in> set ls. CHR 0x0A \<notin> set l)"
  have h: "CHR 0x0A \<notin> set ''Date_time,P_avg,Ws_avg''" by simp
  have "split_on (CHR 0x0A) bytes = ''Date_time,P_avg,Ws_avg'' # ls"
    using t split_on_lines [OF h, of ls] by simp
  then have "parse_csv bytes
               = Some ([''Date_time'', ''P_avg'', ''Ws_avg''],
                       map (split_on CHR '','') (filter (\<lambda>l. l \<noteq> []) ls))"
    by (simp add: parse_csv_def)
  from upload_parsed [OF assms this]
  show "rows_and_columns
                (upload_plant_data scenario_aliases S new_id now reg bytes fname)
              = Inr (length (filter (\<lambda>l. l \<noteq> []) ls), [''time'', ''power'', ''wind_speed''])"
    by simp
qed

theorem upload_scenario_A_witness:
  "length scenario_A_csv \<le> size_ceiling
   \<and> scenario_A_csv = ''Date_time,P_avg,Ws_avg'' @ concat (map (\<lambda>l. CHR 0x0A # l)
         [''2014-01-01T00:00:00,120.5,5.3'', ''2014-01-01T00:10:00,133.0,5.9'', []])
   \<and> rows_and_columns
        (upload_plant_data scenario_aliases
           \<lparr>required_fields = [''time'', ''power''], optional_fields = [''wind_speed'']\<rparr>
           ''77c1'' 2000 startup_registry scenario_A_csv ''plant.csv'')
       = Inr (2, [''time'', ''power'', ''wind_speed''])"
proof -
  let ?S = "\<lparr>required_fields = [''time'', ''power''], optional_fields = [''wind_speed'']\<rparr>"
  let ?ls = "[''2014-01-01T00:00:00,120.5,5.3'', ''2014-01-01T00:10:00,133.0,5.9'', []]"
  have s: "length scenario_A_csv \<le> size_ceiling"
    by (simp add: scenario_A_csv_def size_ceiling_def)
  have r: "set (required_fields ?S) \<subseteq> {''time'', ''power'', ''wind_speed''}"
    by simp
  have t: "scenario_A_csv = ''Date_time,P_avg,Ws_avg'' @ concat (map (\<lambda>l. CHR 0x0A # l) ?ls)"
    by (simp add: scenario_A_csv_def)
  have n: "\<forall>l \<in> set ?ls. CHR 0x0A \<notin> set l"
    by simp
  have f: "length (filter (\<lambda>l. l \<noteq> []) ?ls) = 2"
    by simp
  note th = upload_scenario_A [OF s r, of _ "''77c1''" 2000 startup_registry "''plant.csv''" ?ls]
  from th t n have "rows_and_columns
        (upload_plant_data scenario_aliases ?S ''77c1'' 2000 startup_registry scenario_A_csv
           ''plant.csv'')
       = Inr (length (filter (\<lambda>l. l \<noteq> []) ?ls), [''time'', ''power'', ''wind_speed''])"
    by blast
  with s t f show ?thesis by simp
qed

section \<open>Expiry of datasets\<close>

lemma la_haute_borne_targets:
  "map (canonical_of la_haute_borne_aliases S) [''Date_time'', ''P_avg'', ''Ws_avg'']
     = [Some ''time'', Some ''WTUR_W'', Some ''WMET_HorWdSpd'']"
proof -
  have l: "toLowerCase ''Date_time'' = ''date_time''" "toLowerCase ''P_avg'' = ''p_avg''"
      "toLowerCase ''Ws_avg'' = ''ws_avg''"
    by (simp_all add: toLowerCase_def lower_char_def upper_letters_def lower_letters_def)
  show ?thesis
    by (simp add: canonical_of_def lookup_alias_def la_haute_borne_aliases_def l)
qed

lemma la_haute_borne_mapping:
  "column_mapping la_haute_borne_aliases S [''Date_time'', ''P_avg'', ''Ws_avg'']
     = [(''Date_time'', ''time''), (''P_avg'', ''WTUR_W''), (''Ws_avg'', ''WMET_HorWdSpd'')]"
  using la_haute_borne_targets [of S] by (simp add: column_mapping_def)

lemma la_haute_borne_renamed:
  "renamed_columns la_haute_borne_aliases S [''Date_time'', ''P_avg'', ''Ws_avg'']
     = [''time'', ''WTUR_W'', ''WMET_HorWdSpd'']"
  using la_haute_borne_targets [of S] by (simp add: renamed_columns_def)

lemma put_other_id:
  "put A S new_id now reg bytes fname = Inr (d, reg') \<Longrightarrow> i \<noteq> new_id \<Longrightarrow> reg' i = reg i"
  by (auto simp: put_def Let_def split: if_splits option.splits sum.splits prod.splits)

lemma put_stores:
  "put A S new_id now reg bytes fname = Inr (d, reg') \<Longrightarrow>
   reg' new_id = Some d \<and> \<not> is_default d \<and> expires_at d = now + retention"
  by (auto simp: put_def Let_def split: if_splits option.splits sum.splits prod.splits)

lemma delete_expired_default:
  "reg i = Some d \<Longrightarrow> is_default d \<Longrightarrow> delete_expired now reg i = Some d"
  by (simp add: delete_expired_def expired_def)

lemma registry_step_default:
  assumes "reg ''default'' = Some sample_dataset"
    and "upload_id e \<noteq> Some ''default''"
  shows "registry_step A S reg e ''default'' = Some sample_dataset"
proof (cases e)
  case (Upload new_id now bytes fname)
  then have n: "''default'' \<noteq> new_id" using assms(2) by auto
  show ?thesis
  proof (cases "put A S new_id now reg bytes fname")
    case (Inl err)
    then show ?thesis using Upload assms(1) by simp
  next
    case (Inr p)
    then obtain d reg' where p: "put A S new_id now reg bytes fname = Inr (d, reg')"
      by (cases p) auto
    from put_other_id [OF p n] assms(1) Upload p show ?thesis by simp
  qed
next
  case (Cleanup now)
  have "is_default sample_dataset" by (simp add: sample_dataset_def)
  with assms(1) Cleanup show ?thesis by (simp add: delete_expired_default)
qed

lemma registry_run_default:
  "\<forall>e \<in> set es. upload_id e \<noteq> Some ''default'' \<Longrightarrow>
   registry_run A S es ''default'' = Some sample_dataset"
proof (induction es rule: rev_induct)
  case Nil
  show ?case by (simp add: registry_run_def startup_registry_def)
next
  case (snoc e es)
  then have "registry_run A S es ''default'' = Some sample_dataset" by simp
  moreover have "upload_id e \<noteq> Some ''default''" using snoc.prems by simp
  ultimately show ?case
    by (simp add: registry_run_def registry_step_default)
qed

text \<open>
  Claim C4. When \<open>delete_expired\<close> runs, every dataset whose \<open>expires_at\<close> has passed
  is gone: a later \<open>get\<close> on its id answers \<open>DatasetNotFound\<close>. The default dataset
  is never deleted: whatever uploads (under generated ids, which differ from the
  sentinel) and cleanups have happened, \<open>get\<close> on the default id answers the default
  dataset, also right after a cleanup. A dataset that has not expired stays as well.
\<close>

theorem delete_expired_then_get:
  "(reg i = Some d \<and> \<not> is_default d \<and> expires_at d < now \<longrightarrow>
      get (delete_expired now reg) i = Inl DatasetNotFound)
   \<and> (reg i = Some d \<and> is_default d \<longrightarrow> get (delete_expired now reg) i = Inr d)
   \<and> (reg i = Some d \<and> now \<le> expires_at d \<longrightarrow> get (delete_expired now reg) i = Inr d)
   \<and> ((\<forall>e \<in> set es. upload_id e \<noteq> Some ''default'') \<longrightarrow>
        get (registry_run A S es) ''default'' = Inr sample_dataset
        \<and> get (delete_expired now (registry_run A S es)) ''default'' = Inr sample_dataset)"
proof -
  have step: "(reg i = Some d \<and> \<not> is_default d \<and> expires_at d < now \<longrightarrow>
      get (delete_expired now reg) i = Inl DatasetNotFound)
   \<and> (reg i = Some d \<and> is_default d \<longrightarrow> get (delete_expired now reg) i = Inr d)
   \<and> (reg i = Some d \<and> now \<le> expires_at d \<longrightarrow> get (delete_expired now reg) i = Inr d)"
    by (simp add: get_def delete_expired_def expired_def)
  have run: "get (registry_run A S es) ''default'' = Inr sample_dataset
        \<and> get (delete_expired now (registry_run A S es)) ''default'' = Inr sample_dataset"
    if h: "\<forall>e \<in> set es. upload_id e \<noteq> Some ''default''"
  proof -
    have r: "registry_run A S es ''default'' = Some sample_dataset"
      using h by (rule registry_run_default)
    have "is_default sample_dataset" by (simp add: sample_dataset_def)
    with r have "delete_expired now (registry_run A S es) ''default'' = Some sample_dataset"
      by (simp add: delete_expired_default)
    with r show ?thesis by (simp add: get_def)
  qed
  from step run show ?thesis by blast
qed

theorem delete_expired_then_get_witness:
  "registry_run la_haute_borne_aliases scada_schema
       [Upload ''3f2a'' 1000 scenario_A_csv ''scada.csv'']
     = startup_registry(''3f2a'' \<mapsto> uploaded_dataset)
   \<and> get (delete_expired (1001 + retention)
            (registry_run la_haute_borne_aliases scada_schema
               [Upload ''3f2a'' 1000 scenario_A_csv ''scada.csv''])) ''3f2a''
       = Inl DatasetNotFound
   \<and> get (delete_expired (1001 + retention)
            (registry_run la_haute_borne_aliases scada_schema
               [Upload ''3f2a'' 1000 scenario_A_csv ''scada.csv''])) ''default''
       = Inr sample_dataset
   \<and> get (delete_expired 5000
            (registry_run la_haute_borne_aliases scada_schema
               [Upload ''3f2a'' 1000 scenario_A_csv ''scada.csv''])) ''3f2a''
       = Inr uploaded_dataset"
proof -
  let ?es = "[Upload ''3f2a'' 1000 scenario_A_csv ''scada.csv'']"
  let ?reg = "registry_run la_haute_borne_aliases scada_schema ?es"
  have s: "length scenario_A_csv \<le> size_ceiling"
    by (simp add: scenario_A_csv_def size_ceiling_def)
  have m: "Column_Mapper la_haute_borne_aliases scada_schema [''Date_time'', ''P_avg'', ''Ws_avg'']
     = Inr [(''Date_time'', ''time''), (''P_avg'', ''WTUR_W''), (''Ws_avg'', ''WMET_HorWdSpd'')]"
    by (simp add: Column_Mapper_def missing_required_def la_haute_borne_mapping scada_schema_def)
  have p: "put la_haute_borne_aliases scada_schema ''3f2a'' 1000 startup_registry
             scenario_A_csv ''scada.csv''
           = Inr (uploaded_dataset, startup_registry(''3f2a'' \<mapsto> uploaded_dataset))"
    using s
    by (simp add: put_def parse_scenario_A m la_haute_borne_renamed Let_def uploaded_dataset_def
        numeral_2_eq_2)
  have r: "?reg = startup_registry(''3f2a'' \<mapsto> uploaded_dataset)"
    by (simp add: registry_run_def p)
  have a: "?reg ''3f2a'' = Some uploaded_dataset \<and> \<not> is_default uploaded_dataset
           \<and> expires_at uploaded_dataset < 1001 + retention"
    unfolding r by (simp add: uploaded_dataset_def)
  have c: "?reg ''3f2a'' = Some uploaded_dataset \<and> 5000 \<le> expires_at uploaded_dataset"
    unfolding r by (simp add: uploaded_dataset_def retention_def)
  have u: "\<forall>e \<in> set ?es. upload_id e \<noteq> Some ''default''"
    by simp
  from delete_expired_then_get
         [of ?reg "''3f2a''" uploaded_dataset "1001 + retention" ?es
             la_haute_borne_aliases scada_schema]
       delete_expired_then_get
         [of ?reg "''3f2a''" uploaded_dataset 5000 ?es la_haute_borne_aliases scada_schema]
       a c u r
  show ?thesis by blast
qed

section \<open>Summary statistics of the comparison view\<close>

lemma exact_sum_foldl: "exact_sum acc vs \<Longrightarrow> foldl fadd acc vs = acc + sum_list vs"
  by (induction vs arbitrary: acc) (simp_all add: fadd_def is_double_def add.assoc)

lemma sum_list_le_max:
  fixes vs :: "rat list"
  shows "\<forall>v \<in> set vs. v \<le> M \<Longrightarrow> sum_list vs \<le> of_nat (length vs) * M"
  by (induction vs) (auto simp: algebra_simps)

lemma sum_list_ge_min:
  fixes vs :: "rat list"
  shows "\<forall>v \<in> set vs. m \<le> v \<Longrightarrow> of_nat (length vs) * m \<le> sum_list vs"
  by (induction vs) (auto simp: algebra_simps)

lemma mean_between:
  fixes vs :: "rat list"
  assumes "vs \<noteq> []"
  shows "Min (set vs) \<le> sum_list vs / of_nat (length vs)"
    and "sum_list vs / of_nat (length vs) \<le> Max (set vs)"
proof -
  have n: "(0::rat) < of_nat (length vs)" using assms by simp
  have "of_nat (length vs) * Min (set vs) \<le> sum_list vs"
    by (rule sum_list_ge_min) simp
  then show "Min (set vs) \<le> sum_list vs / of_nat (length vs)"
    using n by (simp add: pos_le_divide_eq mult.commute)
  have "sum_list vs \<le> of_nat (length vs) * Max (set vs)"
    by (rule sum_list_le_max) simp
  then show "sum_list vs / of_nat (length vs) \<le> Max (set vs)"
    using n by (simp add: pos_divide_le_eq mult.commute)
qed

lemma metric_values_empty:
  "metric_values key analyses = [] \<longleftrightarrow> (\<forall>a \<in> set analyses. key (result a) = None)"
  by (induction analyses) (auto simp: metric_values_def split: option.splits)

lemma summary_of_Some:
  assumes "vs \<noteq> []"
  shows "summary_of vs =
           Some \<lparr>st_avg = fdiv (foldl fadd 0 vs) (of_nat (length vs)),
                 st_min = Min (set vs), st_max = Max (set vs),
                 st_range = fsub (Max (set vs)) (Min (set vs))\<rparr>"
proof -
  from assms obtain v ws where vs: "vs = v # ws" by (cases vs) auto
  have mn: "fold min ws v = Min (set vs)"
    unfolding vs by (rule Min.set_eq_fold [symmetric])
  have mx: "fold max ws v = Max (set vs)"
    unfolding vs by (rule Max.set_eq_fold [symmetric])
  have "summary_of (v # ws) =
          Some \<lparr>st_avg = fdiv (foldl fadd 0 (v # ws)) (of_nat (length (v # ws))),
                st_min = fold min ws v, st_max = fold max ws v,
                st_range = fsub (fold max ws v) (fold min ws v)\<rparr>"
    by (simp add: Let_def del: foldl_Cons)
  then show ?thesis
    unfolding mn mx by (simp only: vs)
qed

text \<open>
  Claim C9, as stated, at three analyses whose AEP is the double nearest to \<open>0.1\<close>:
  the running sum rounds up at the third addition, the quotient by 3 is the next double
  above \<open>0.1\<close>, and so the average is neither the arithmetic mean of the values (which
  is the value itself) nor at most the maximum.
\<close>

theorem average_above_max:
  "round_double (1 / 10) = tenth
   \<and> summary_of (metric_values aep_gwh [tenth_example, tenth_example, tenth_example])
       = Some \<lparr>st_avg = 7205759403792795 / 72057594037927936,
                st_min = tenth, st_max = tenth, st_range = 0\<rparr>
   \<and> tenth < 7205759403792795 / 72057594037927936"
proof -
  have v: "metric_values aep_gwh [tenth_example, tenth_example, tenth_example]
             = [tenth, tenth, tenth]"
    by (simp add: metric_values_def tenth_example_def empty_result_def)
  have r: "round_double (1 / 10) = tenth"
    by code_simp
  have a: "fdiv (fadd (fadd (fadd 0 tenth) tenth) tenth) 3 = 7205759403792795 / 72057594037927936"
    by code_simp
  have s: "fsub tenth tenth = 0"
    by (simp add: fsub_def round_double_def)
  have lt: "tenth < 7205759403792795 / 72057594037927936"
    by (simp add: tenth_def)
  show ?thesis
    unfolding v using r a s lt by (simp add: Let_def)
qed

lemma summary_of_metric:
  "metric_values (metric_key m) analyses
     = map (\<lambda>a. the (metric_key m (result a)))
         (filter (\<lambda>a. metric_key m (result a) \<noteq> None) analyses)
   \<and> (summary_card_of toFixed analyses m = None
        \<longleftrightarrow> (\<forall>a \<in> set analyses. metric_key m (result a) = None))
   \<and> (metric_values (metric_key m) analyses \<noteq> [] \<longrightarrow>
        (\<exists>s. summary_of (metric_values (metric_key m) analyses) = Some s
           \<and> st_min s = Min (set (metric_values (metric_key m) analyses))
           \<and> st_max s = Max (set (metric_values (metric_key m) analyses))
           \<and> st_min s \<le> st_max s
           \<and> st_avg s = fdiv (foldl fadd 0 (metric_values (metric_key m) analyses))
                              (of_nat (length (metric_values (metric_key m) analyses)))
           \<and> st_range s = fsub (st_max s) (st_min s)
           \<and> (exact_sum 0 (metric_values (metric_key m) analyses)
                \<and> is_double (sum_list (metric_values (metric_key m) analyses)
                               / of_nat (length (metric_values (metric_key m) analyses)))
               \<longrightarrow> st_avg s = sum_list (metric_values (metric_key m) analyses)
                               / of_nat (length (metric_values (metric_key m) analyses))
                   \<and> st_min s \<le> st_avg s \<and> st_avg s \<le> st_max s)
           \<and> (is_double (st_max s - st_min s) \<longrightarrow> st_range s = st_max s - st_min s)))"
proof (intro conjI impI)
  let ?vs = "metric_values (metric_key m) analyses"
  show "?vs = map (\<lambda>a. the (metric_key m (result a)))
                (filter (\<lambda>a. metric_key m (result a) \<noteq> None) analyses)"
    by (simp add: metric_values_def List.map_filter_def comp_def)
  have none: "summary_of ?vs = None \<longleftrightarrow> ?vs = []"
    by (cases ?vs) (simp_all add: Let_def del: foldl_Cons)
  show "summary_card_of toFixed analyses m = None
        \<longleftrightarrow> (\<forall>a \<in> set analyses. metric_key m (result a) = None)"
    using none metric_values_empty [of "metric_key m" analyses]
    by (auto simp: summary_card_of_def split: option.splits)
  assume ne: "?vs \<noteq> []"
  let ?s = "\<lparr>st_avg = fdiv (foldl fadd 0 ?vs) (of_nat (length ?vs)),
             st_min = Min (set ?vs), st_max = Max (set ?vs),
             st_range = fsub (Max (set ?vs)) (Min (set ?vs))\<rparr>"
  have s: "summary_of ?vs = Some ?s" using ne by (rule summary_of_Some)
  have le: "Min (set ?vs) \<le> Max (set ?vs)"
    using ne by (simp add: Min_le_iff)
  have exact: "st_avg ?s = sum_list ?vs / of_nat (length ?vs)
               \<and> st_min ?s \<le> st_avg ?s \<and> st_avg ?s \<le> st_max ?s"
    if e: "exact_sum 0 ?vs \<and> is_double (sum_list ?vs / of_nat (length ?vs))"
  proof -
    from e have "foldl fadd 0 ?vs = sum_list ?vs" by (simp add: exact_sum_foldl)
    with e have "st_avg ?s = sum_list ?vs / of_nat (length ?vs)"
      by (simp add: fdiv_def is_double_def)
    with mean_between [OF ne] show ?thesis by simp
  qed
  have rng: "st_range ?s = st_max ?s - st_min ?s" if "is_double (st_max ?s - st_min ?s)"
    using that by (simp add: fsub_def is_double_def)
  show "\<exists>s. summary_of ?vs = Some s
           \<and> st_min s = Min (set ?vs)
           \<and> st_max s = Max (set ?vs)
           \<and> st_min s \<le> st_max s
           \<and> st_avg s = fdiv (foldl fadd 0 ?vs) (of_nat (length ?vs))
           \<and> st_range s = fsub (st_max s) (st_min s)
           \<and> (exact_sum 0 ?vs \<and> is_double (sum_list ?vs / of_nat (length ?vs))
               \<longrightarrow> st_avg s = sum_list ?vs / of_nat (length ?vs)
                   \<and> st_min s \<le> st_avg s \<and> st_avg s \<le> st_max s)
           \<and> (is_double (st_max s - st_min s) \<longrightarrow> st_range s = st_max s - st_min s)"
  proof (intro exI [of _ ?s] conjI impI)
    show "summary_of ?vs = Some ?s" by (rule s)
    show "st_min ?s \<le> st_max ?s" using le by simp
    show "st_avg ?s = sum_list ?vs / of_nat (length ?vs)"
      if "exact_sum 0 ?vs \<and> is_double (sum_list ?vs / of_nat (length ?vs))"
      using exact [OF that] by blast
    show "st_min ?s \<le> st_avg ?s"
      if "exact_sum 0 ?vs \<and> is_double (sum_list ?vs / of_nat (length ?vs))"
      using exact [OF that] by blast
    show "st_avg ?s \<le> st_max ?s"
      if "exact_sum 0 ?vs \<and> is_double (sum_list ?vs / of_nat (length ?vs))"
      using exact [OF that] by blast
    show "st_range ?s = st_max ?s - st_min ?s" if "is_double (st_max ?s - st_min ?s)"
      using that by (rule rng)
  qed simp_all
qed


text \<open>
  Claim C9, amended. The comparison view renders nothing for an empty list of analyses,
  and otherwise one summary entry for each of the first two metrics. For such a metric,
  only the analyses that carry a number for it contribute, and no card is rendered
  exactly when no analysis carries it.
  Otherwise the card's minimum and maximum are the least and the greatest of these
  values, so minimum \<open>\<le>\<close> maximum; the average is the double-precision quotient of the
  double-precision running sum by the count, and the range is the double-precision
  difference of maximum and minimum. Whenever the running sum and the quotient incur no
  rounding, the average equals the arithmetic mean of the values and
  minimum \<open>\<le>\<close> average \<open>\<le>\<close> maximum; whenever the difference incurs none, the range
  equals maximum minus minimum.
\<close>

theorem summary_statistics:
  "ComparisonView_summary toFixed [] = None
   \<and> (analyses \<noteq> [] \<longrightarrow>
        ComparisonView_summary toFixed analyses
          = Some [summary_card_of toFixed analyses (metrics ! 0),
                  summary_card_of toFixed analyses (metrics ! 1)])
   \<and> metric_values (metric_key m) analyses
        = map (\<lambda>a. the (metric_key m (result a)))
            (filter (\<lambda>a. metric_key m (result a) \<noteq> None) analyses)
      \<and> (summary_card_of toFixed analyses m = None
           \<longleftrightarrow> (\<forall>a \<in> set analyses. metric_key m (result a) = None))
      \<and> (metric_values (metric_key m) analyses \<noteq> [] \<longrightarrow>
           (\<exists>s. summary_of (metric_values (metric_key m) analyses) = Some s
              \<and> st_min s = Min (set (metric_values (metric_key m) analyses))
              \<and> st_max s = Max (set (metric_values (metric_key m) analyses))
              \<and> st_min s \<le> st_max s
              \<and> st_avg s = fdiv (foldl fadd 0 (metric_values (metric_key m) analyses))
                                 (of_nat (length (metric_values (metric_key m) analyses)))
              \<and> st_range s = fsub (st_max s) (st_min s)
              \<and> (exact_sum 0 (metric_values (metric_key m) analyses)
                   \<and> is_double (sum_list (metric_values (metric_key m) analyses)
                                  / of_nat (length (metric_values (metric_key m) analyses)))
                  \<longrightarrow> st_avg s = sum_list (metric_values (metric_key m) analyses)
                                  / of_nat (length (metric_values (metric_key m) analyses))
                      \<and> st_min s \<le> st_avg s \<and> st_avg s \<le> st_max s)
              \<and> (is_double (st_max s - st_min s) \<longrightarrow> st_range s = st_max s - st_min s)))"
proof -
  have a: "ComparisonView_summary toFixed [] = None"
    by (simp add: ComparisonView_summary_def)
  have b: "analyses \<noteq> [] \<longrightarrow>
        ComparisonView_summary toFixed analyses
          = Some [summary_card_of toFixed analyses (metrics ! 0),
                  summary_card_of toFixed analyses (metrics ! 1)]"
    by (simp add: ComparisonView_summary_def metrics_def)
  note c = summary_of_metric [of m analyses toFixed]
  show ?thesis
    by (rule conjI [OF a], rule conjI [OF b], rule c)
qed

theorem summary_statistics_witness:
  "metric_values aep_gwh [aep_example, losses_example, aep_34_example] = [32, 34]
   \<and> exact_sum 0 [32, 34] \<and> is_double (sum_list [32, 34] / of_nat (length [32 :: rat, 34]))
   \<and> summary_of (metric_values aep_gwh [aep_example, losses_example, aep_34_example])
       = Some \<lparr>st_avg = 33, st_min = 32, st_max = 34, st_range = 2\<rparr>"
proof -
  let ?m = "\<lparr>metric_key = aep_gwh, metric_label = ''AEP (GWh)'', metric_digits = 2\<rparr>"
  let ?as = "[aep_example, losses_example, aep_34_example]"
  have v: "metric_values (metric_key ?m) ?as = [32, 34]"
    by (simp add: metric_values_def aep_example_def losses_example_def aep_34_example_def
        empty_result_def)
  have rd: "round_double 32 = 32" "round_double 66 = 66" "round_double 33 = 33"
      "round_double 2 = 2"
    by code_simp+
  have e: "exact_sum 0 [32, 34]"
    by (simp add: is_double_def rd)
  have q: "is_double (sum_list [32, 34] / of_nat (length [32 :: rat, 34]))"
    by (simp add: is_double_def rd)
  have d: "is_double (34 - 32)"
    by (simp add: is_double_def rd)
  have ne: "metric_values (metric_key ?m) ?as \<noteq> []"
    unfolding v by simp
  from summary_statistics [where m = ?m and analyses = ?as, THEN conjunct2, THEN conjunct2,
         THEN conjunct2, THEN conjunct2, THEN mp, OF ne]
  obtain s where s: "summary_of [32, 34] = Some s"
      "st_min s = Min (set [32, 34])" "st_max s = Max (set [32, 34])"
      "exact_sum 0 [32, 34] \<and> is_double (sum_list [32, 34] / of_nat (length [32 :: rat, 34]))
         \<longrightarrow> st_avg s = sum_list [32, 34] / of_nat (length [32 :: rat, 34])
             \<and> st_min s \<le> st_avg s \<and> st_avg s \<le> st_max s"
      "is_double (st_max s - st_min s) \<longrightarrow> st_range s = st_max s - st_min s"
    unfolding v by blast
  have mn: "st_min s = 32" and mx: "st_max s = 34"
    using s(2,3) by simp_all
  have av: "st_avg s = 33"
    using s(4) e q by simp
  have rg: "st_range s = 2"
    using s(5) d mn mx by simp
  have "s = \<lparr>st_avg = 33, st_min = 32, st_max = 34, st_range = 2\<rparr>"
    using mn mx av rg by (cases s) simp
  with s(1) v e q show ?thesis by simp
qed

end
